theory Spec2Isabelle
  imports Main "HOL-Library.Word" "HOL-Library.Sublist"
begin

section \<open>The upgrade command of influxd (cmd/influxd/upgrade/upgrade.go)\<close>

text \<open>
  A shallow embedding of \<^verbatim>\<open>upgrade.go\<close>. Strings are Go strings (byte lists). A Go
  \<^verbatim>\<open>error\<close> is modelled by its message; a function returning \<^verbatim>\<open>error\<close> returns
  \<open>error option\<close> (\<open>None\<close> is \<^verbatim>\<open>nil\<close>), one returning \<^verbatim>\<open>(T, error)\<close> returns
  \<open>error + T\<close> (\<open>Inl\<close> the error).
\<close>

type_synonym error = string

subsection \<open>The 1.x configuration and its URL\<close>

text \<open>
  \<^verbatim>\<open>configV1\<close> has the nested structs \<^verbatim>\<open>Meta\<close>, \<^verbatim>\<open>Data\<close> and \<^verbatim>\<open>Http\<close>; the record
  flattens them, each field named by its path.
\<close>

record configV1 =
  Meta_Dir :: string
  Data_Dir :: string
  Data_WALDir :: string
  Http_BindAddress :: string
  Http_HttpsEnabled :: bool
  Http_AuthEnabled :: bool

text \<open>
  The fields of \<^verbatim>\<open>net/url.URL\<close> that \<^verbatim>\<open>dbURL\<close> sets; every other field keeps its zero
  value.
\<close>

record URL =
  Scheme :: string
  Host :: string

text \<open>\<^verbatim>\<open>strings.HasPrefix(s, prefix)\<close>.\<close>

definition HasPrefix :: "string \<Rightarrow> string \<Rightarrow> bool" where
  "HasPrefix s pre = (take (length pre) s = pre)"

text \<open>
  The local variable \<^verbatim>\<open>url\<close> of the method \<^verbatim>\<open>configV1.dbURL\<close> when the function reaches its
  \<^verbatim>\<open>return\<close> (lines 54 to 68):
  \<^verbatim>\<open>
  address := c.Http.BindAddress
  if address == "" { address = ":8086" }          // fallback to default
  if c.Http.HttpsEnabled { url.Scheme = "https" } else { url.Scheme = "http" }
  if strings.HasPrefix(address, ":") { url.Host = "localhost" + address }
  else { url.Host = address }
  \<close>
\<close>

definition configV1_dbURL_url :: "configV1 \<Rightarrow> URL" where
  "configV1_dbURL_url c =
     (let address = Http_BindAddress c;
          address = (if address = [] then '':8086'' else address)
      in \<lparr>Scheme = (if Http_HttpsEnabled c then ''https'' else ''http''),
          Host = (if HasPrefix address '':'' then ''localhost'' @ address else address)\<rparr>)"

text \<open>
  \<^verbatim>\<open>url.URL.String()\<close> on a URL whose only non-zero fields are \<^verbatim>\<open>Scheme\<close> and
  \<^verbatim>\<open>Host\<close>: the scheme and a colon when the scheme is not empty, then \<^verbatim>\<open>//\<close> and the
  escaped host when the host is not empty. The standard library's host escaping
  (\<^verbatim>\<open>escape(h, encodeHost)\<close>) is a parameter.
\<close>

definition URL_String :: "(string \<Rightarrow> string) \<Rightarrow> URL \<Rightarrow> string" where
  "URL_String escapeHost u =
     (if Scheme u \<noteq> [] then Scheme u @ '':'' else []) @
     (if Scheme u \<noteq> [] \<or> Host u \<noteq> []
      then (if Host u \<noteq> [] then ''//'' @ escapeHost (Host u) else [])
      else [])"

definition configV1_dbURL :: "(string \<Rightarrow> string) \<Rightarrow> configV1 \<Rightarrow> string" where
  "configV1_dbURL escapeHost c = URL_String escapeHost (configV1_dbURL_url c)"

text \<open>
  The host escaping of \<^verbatim>\<open>net/url\<close>, for the statements that need the parameter
  filled in. \<^verbatim>\<open>shouldEscape(c, encodeHost)\<close> is false for the letters and digits, for
  \<^verbatim>\<open>! $ & ' ( ) * + , ; = : [ ] < > "\<close> and for \<^verbatim>\<open>- _ . ~\<close>, and true for every other
  byte; \<^verbatim>\<open>escape\<close> writes a byte that should be escaped as \<^verbatim>\<open>%\<close> and its two
  upper-case hexadecimal digits (\<^verbatim>\<open>upperhex[c>>4]\<close>, \<^verbatim>\<open>upperhex[c&15]\<close>).
\<close>

definition upperhex :: "nat \<Rightarrow> char" where
  "upperhex n = ''0123456789ABCDEF'' ! n"

definition shouldEscape_encodeHost :: "char \<Rightarrow> bool" where
  "shouldEscape_encodeHost c =
     (let n = (of_char c :: nat) in
      \<not> (97 \<le> n \<and> n \<le> 122 \<or> 65 \<le> n \<and> n \<le> 90 \<or> 48 \<le> n \<and> n \<le> 57) \<and>
      c \<notin> set [CHR ''!'', CHR ''$'', CHR ''&'', CHR 0x27, CHR ''('', CHR '')'', CHR ''*'',
                 CHR ''+'', CHR '','', CHR '';'', CHR ''='', CHR '':'', CHR ''['', CHR '']'',
                 CHR ''<'', CHR ''>'', CHR 0x22] \<and>
      c \<notin> set [CHR ''-'', CHR ''_'', CHR ''.'', CHR ''~''])"

definition escape_encodeHost :: "string \<Rightarrow> string" where
  "escape_encodeHost s =
     concat (map (\<lambda>c. if shouldEscape_encodeHost c
                        then [CHR ''%'', upperhex (of_char c div 16), upperhex (of_char c mod 16)]
                        else [c]) s)"

subsection \<open>Options and package state\<close>

record optionsV1 =
  metaDir :: string
  walDir :: string
  dataDir :: string
  dbURL :: string
  dbDir :: string
  configFile :: string

text \<open>\<^verbatim>\<open>influxdb.ID\<close> is a \<^verbatim>\<open>uint64\<close>.\<close>

record optionsV2 =
  boltPath :: string
  cliConfigsPath :: string
  enginePath :: string
  cqPath :: string
  userName :: string
  password :: string
  orgName :: string
  bucket :: string
  orgID :: "64 word"
  userID :: "64 word"
  token :: string
  retention :: string

text \<open>The anonymous struct type of the package variable \<^verbatim>\<open>options\<close>.\<close>

record optionsT =
  source :: optionsV1
  target :: optionsV2
  verbose :: bool
  logLevel :: string
  logPath :: string
  force :: bool

text \<open>The package variables \<^verbatim>\<open>options\<close> and \<^verbatim>\<open>fluxInitialized\<close>.\<close>

record globals =
  options :: optionsT
  fluxInitialized :: bool

subsection \<open>The world outside the file\<close>

text \<open>
  What \<^verbatim>\<open>os.Stat\<close> returns beside the error: only \<^verbatim>\<open>IsDir()\<close> is read.
\<close>

datatype FileInfo = FileInfo (IsDir: bool)

text \<open>
  The handles the command opens and closes: the bolt client and the key/value store on
  the bolt file (the store shares the client's database), the 2.x meta client, and the
  1.x meta client on the source meta directory.
\<close>

datatype handle =
    BoltClient string
  | BoltKVStore string
  | MetaClient
  | V1MetaClient string

text \<open>Calls to functions of other files, which the trace records by name.\<close>

datatype call =
    FluxInit
  | ConfigBuild
  | UpgradeConfig
  | NewMigrator
  | MigratorUp
  | NewStoreV2
  | NewStoreV1
  | IsOnboarding
  | OnboardingRequest
  | SetupAdmin
  | SaveLocalConfig
  | UpgradeDatabases
  | UpgradeUsers

text \<open>
  The effects of a run, in the order they happen: file system reads (\<open>Stat\<close>,
  \<open>ReadDir\<close>), file system deletions (\<open>Remove\<close>, \<open>RemoveAll\<close>), \<^verbatim>\<open>Open()\<close> and
  \<^verbatim>\<open>Close()\<close> on a handle with what the call returned, calls into other files, and log
  entries with their message and fields. A log entry is in the trace when the logger
  wrote it: a call of \<^verbatim>\<open>log.Info\<close>, \<^verbatim>\<open>log.Warn\<close> or \<^verbatim>\<open>log.Error\<close> below the level
  of the logger leaves no event.
\<close>

datatype event =
    Stat string
  | ReadDir string
  | Remove string
  | RemoveAll string
  | Open handle "error option"
  | Close handle "error option"
  | Call call
  | LogInfo string "(string \<times> string) list"
  | LogError string "(string \<times> string) list"
  | LogWarn string "(string \<times> string) list"

text \<open>
  The levels of \<^verbatim>\<open>zapcore.Level\<close> with their numbers. A logger built at level \<open>l\<close>
  writes an entry of level \<open>lvl\<close> when \<^verbatim>\<open>l.Enabled(lvl)\<close>, that is when \<open>lvl\<close> is not
  below \<open>l\<close>.
\<close>

datatype Level =
    DebugLevel
  | InfoLevel
  | WarnLevel
  | ErrorLevel
  | DPanicLevel
  | PanicLevel
  | FatalLevel

fun Level_int :: "Level \<Rightarrow> int" where
  "Level_int DebugLevel = - 1"
| "Level_int InfoLevel = 0"
| "Level_int WarnLevel = 1"
| "Level_int ErrorLevel = 2"
| "Level_int DPanicLevel = 3"
| "Level_int PanicLevel = 4"
| "Level_int FatalLevel = 5"

definition Enabled :: "Level \<Rightarrow> Level \<Rightarrow> bool" where
  "Enabled l lvl = (Level_int l \<le> Level_int lvl)"

text \<open>The \<^verbatim>\<open>*influxdb.OnboardingResults\<close> fields that \<^verbatim>\<open>runUpgradeE\<close> reads.\<close>

record OnboardingResults =
  Org_ID :: "64 word"
  User_ID :: "64 word"
  Auth_Token :: string

type_synonym db2BucketIds = "(string \<times> 64 word list) list"

text \<open>
  Everything the file calls and does not define: the operating system, the standard
  library, and the functions of the package's other files and of other packages. Each is
  given by what it returns. A function that a run calls at most once is given by the
  outcome of that call, whatever its arguments were; the file system functions, called on
  several paths, are functions of the path, and the file system is taken not to change
  under \<^verbatim>\<open>validatePaths\<close>. A result that the file only hands on to other calls (the
  migrator, the stores, the onboarding request) is left out, and only the error is kept.
  \<open>handle_Open\<close> and \<open>handle_Close\<close> are the \<^verbatim>\<open>Open\<close> and \<^verbatim>\<open>Close\<close> methods of the
  handles. \<open>lvl_Set\<close> is \<^verbatim>\<open>lvl.Set\<close> on a fresh \<^verbatim>\<open>zapcore.Level\<close>: the error, or the
  level that \<^verbatim>\<open>lvl\<close> holds afterwards. The functions of other files are taken not to
  write the package variable \<^verbatim>\<open>options\<close>.
\<close>

record world =
  os_Stat :: "string \<Rightarrow> error + FileInfo"
  ioutil_ReadDir :: "string \<Rightarrow> error + string list"
  os_Remove :: "string \<Rightarrow> error option"
  os_RemoveAll :: "string \<Rightarrow> error option"
  filepath_Join :: "string \<Rightarrow> string \<Rightarrow> string"
  url_escapeHost :: "string \<Rightarrow> string"
  translateV1ConfigPath :: "string \<Rightarrow> string"
  lvl_Set :: "string \<Rightarrow> error + Level"
  config_Build :: "error option"
  upgradeConfig :: "error + configV1"
  handle_Open :: "handle \<Rightarrow> error option"
  handle_Close :: "handle \<Rightarrow> error option"
  migration_NewMigrator :: "error option"
  migrator_Up :: "error option"
  authorization_NewStore :: "error option"
  authv1_NewStore :: "error option"
  onboardSvc_IsOnboarding :: "error + bool"
  onboardingRequest :: "error option"
  setupAdmin :: "error + OnboardingResults"
  saveLocalConfig :: "error option"
  upgradeDatabases :: "error + db2BucketIds"
  upgradeUsers :: "error + int"

text \<open>
  A function with effects returns its result paired with the events it caused.
  \<open>emit es r\<close> is \<open>r\<close> after the events \<open>es\<close>; \<open>andThen a b\<close> is a statement \<open>a\<close>
  that may return an error, followed by the statements \<open>b\<close> when it does not.
\<close>

definition emit :: "event list \<Rightarrow> 'a \<times> event list \<Rightarrow> 'a \<times> event list" where
  "emit es r = (fst r, es @ snd r)"

definition andThen ::
  "error option \<times> event list \<Rightarrow> error option \<times> event list \<Rightarrow> error option \<times> event list" where
  "andThen a b = (case fst a of Some err \<Rightarrow> a | None \<Rightarrow> emit (snd a) b)"

text \<open>
  The logger of lines 323 to 327 is \<^verbatim>\<open>zap.NewProductionConfig()\<close> with
  \<^verbatim>\<open>config.Level = zap.NewAtomicLevelAt(lvl)\<close>; the model of a \<^verbatim>\<open>*zap.Logger\<close> is its
  level. (The production configuration also samples entries that repeat more than a
  hundred times a second; no message of this file repeats in a run.)
\<close>

definition log_Info :: "Level \<Rightarrow> string \<Rightarrow> (string \<times> string) list \<Rightarrow> event list" where
  "log_Info log msg fs = (if Enabled log InfoLevel then [LogInfo msg fs] else [])"

definition log_Warn :: "Level \<Rightarrow> string \<Rightarrow> (string \<times> string) list \<Rightarrow> event list" where
  "log_Warn log msg fs = (if Enabled log WarnLevel then [LogWarn msg fs] else [])"

definition log_Error :: "Level \<Rightarrow> string \<Rightarrow> (string \<times> string) list \<Rightarrow> event list" where
  "log_Error log msg fs = (if Enabled log ErrorLevel then [LogError msg fs] else [])"

text \<open>The format \<^verbatim>\<open>'%s'\<close>: the string between single quotes.\<close>

definition quoted :: "string \<Rightarrow> string" where
  "quoted s = CHR 0x27 # s @ [CHR 0x27]"

subsection \<open>validatePaths\<close>

text \<open>
  \<^verbatim>\<open>populateDirs\<close> writes three fields of the options it is called on (lines 83 to 87).
\<close>

definition populateDirs :: "world \<Rightarrow> optionsV1 \<Rightarrow> optionsV1" where
  "populateDirs w opts =
     opts\<lparr>metaDir := filepath_Join w (dbDir opts) ''meta'',
          dataDir := filepath_Join w (dbDir opts) ''data'',
          walDir := filepath_Join w (dbDir opts) ''wal''\<rparr>"

text \<open>
  The checks of \<^verbatim>\<open>validatePaths\<close> after the source directory, one definition per
  \<^verbatim>\<open>if\<close> statement of the source, each with the error it returns (\<open>None\<close> when the
  function goes on to the next statement) and its events. \<^verbatim>\<open>os.Stat\<close> "fails" means
  it returned an error, whatever the error.

  Lines 448 to 457: the 1.x config file, when one is named, exists and nothing stands
  where its 2.x translation will be written.
\<close>

definition validate_configFile :: "world \<Rightarrow> optionsV1 \<Rightarrow> error option \<times> event list" where
  "validate_configFile w sourceOpts =
     (if configFile sourceOpts \<noteq> [] then
        emit [Stat (configFile sourceOpts)]
        (case os_Stat w (configFile sourceOpts) of
           Inl err \<Rightarrow>
             (Some (''1.x config file '' @ quoted (configFile sourceOpts) @ '' does not exist''), [])
         | Inr _ \<Rightarrow>
             (let v2Config = translateV1ConfigPath w (configFile sourceOpts)
              in emit [Stat v2Config]
                (case os_Stat w v2Config of
                   Inr _ \<Rightarrow>
                     (Some (''file present at target path for upgraded 2.x config file ''
                             @ quoted v2Config), [])
                 | Inl err \<Rightarrow> (None, []))))
      else (None, []))"

text \<open>Lines 459 to 461.\<close>

definition validate_boltPath :: "world \<Rightarrow> optionsV2 \<Rightarrow> error option \<times> event list" where
  "validate_boltPath w targetOpts =
     emit [Stat (boltPath targetOpts)]
     (case os_Stat w (boltPath targetOpts) of
        Inr _ \<Rightarrow>
          (Some (''file present at target path for upgraded 2.x bolt DB: ''
                  @ quoted (boltPath targetOpts)), [])
      | Inl err \<Rightarrow> (None, []))"

text \<open>Lines 463 to 474.\<close>

definition validate_enginePath :: "world \<Rightarrow> optionsV2 \<Rightarrow> error option \<times> event list" where
  "validate_enginePath w targetOpts =
     emit [Stat (enginePath targetOpts)]
     (case os_Stat w (enginePath targetOpts) of
        Inr fi \<Rightarrow>
          if \<not> IsDir fi then
            (Some (''upgraded 2.x engine path '' @ quoted (enginePath targetOpts)
                    @ '' is not a directory''), [])
          else
            emit [ReadDir (enginePath targetOpts)]
            (case ioutil_ReadDir w (enginePath targetOpts) of
               Inl err \<Rightarrow> (Some err, [])
             | Inr entries \<Rightarrow>
                 if length entries > 0 then
                   (Some (''upgraded 2.x engine directory '' @ quoted (enginePath targetOpts)
                           @ '' must be empty''), [])
                 else (None, []))
      | Inl err \<Rightarrow> (None, []))"

text \<open>Lines 476 to 478.\<close>

definition validate_cliConfigsPath :: "world \<Rightarrow> optionsV2 \<Rightarrow> error option \<times> event list" where
  "validate_cliConfigsPath w targetOpts =
     emit [Stat (cliConfigsPath targetOpts)]
     (case os_Stat w (cliConfigsPath targetOpts) of
        Inr _ \<Rightarrow>
          (Some (''file present at target path for 2.x CLI configs ''
                  @ quoted (cliConfigsPath targetOpts)), [])
      | Inl err \<Rightarrow> (None, []))"

text \<open>Lines 480 to 482.\<close>

definition validate_cqPath :: "world \<Rightarrow> optionsV2 \<Rightarrow> error option \<times> event list" where
  "validate_cqPath w targetOpts =
     emit [Stat (cqPath targetOpts)]
     (case os_Stat w (cqPath targetOpts) of
        Inr _ \<Rightarrow>
          (Some (''file present at target path for exported continuous queries ''
                  @ quoted (cqPath targetOpts)), [])
      | Inl err \<Rightarrow> (None, []))"

text \<open>
  \<^verbatim>\<open>validatePaths\<close> (lines 432 to 485) takes both option structs by pointer; the model
  returns them with the error. After the source directory and \<^verbatim>\<open>meta.db\<close> (lines 433
  to 446) the statements above run in the order of the source, up to the first that
  returns an error.
\<close>

definition validatePaths ::
  "world \<Rightarrow> optionsV1 \<Rightarrow> optionsV2 \<Rightarrow> (error option \<times> optionsV1 \<times> optionsV2) \<times> event list" where
  "validatePaths w sourceOpts targetOpts =
     emit [Stat (dbDir sourceOpts)]
     (case os_Stat w (dbDir sourceOpts) of
        Inl err \<Rightarrow>
          ((Some (''1.x DB dir '' @ quoted (dbDir sourceOpts) @ '' does not exist''),
            sourceOpts, targetOpts), [])
      | Inr fi \<Rightarrow>
          if \<not> IsDir fi then
            ((Some (''1.x DB dir '' @ quoted (dbDir sourceOpts) @ '' is not a directory''),
              sourceOpts, targetOpts), [])
          else
            (let sourceOpts = populateDirs w sourceOpts;
                 metaDb = filepath_Join w (metaDir sourceOpts) ''meta.db''
             in emit [Stat metaDb]
               (case os_Stat w metaDb of
                  Inl err \<Rightarrow>
                    ((Some (''1.x meta.db '' @ quoted metaDb @ '' does not exist''),
                      sourceOpts, targetOpts), [])
                | Inr _ \<Rightarrow>
                    (let r = andThen (validate_configFile w sourceOpts)
                              (andThen (validate_boltPath w targetOpts)
                                (andThen (validate_enginePath w targetOpts)
                                  (andThen (validate_cliConfigsPath w targetOpts)
                                    (validate_cqPath w targetOpts))))
                     in ((fst r, sourceOpts, targetOpts), snd r)))))"

subsection \<open>Opening and closing the services\<close>

datatype influxDBv1 = InfluxDBv1 (v1_meta: handle)

text \<open>
  The fields of \<^verbatim>\<open>influxDBv2\<close> that hold a handle with a \<^verbatim>\<open>Close()\<close>; the other
  fields are services built over them.
\<close>

record influxDBv2 =
  boltClient :: handle
  store :: handle
  meta :: handle

text \<open>
  \<^verbatim>\<open>newInfluxDBv1\<close> with \<^verbatim>\<open>openV1Meta\<close> inlined (lines 487 to 495 and 574 to 584): the
  meta client on \<^verbatim>\<open>opts.metaDir\<close> is opened; an error is wrapped by
  \<^verbatim>\<open>fmt.Errorf("error opening 1.x meta.db: %w", err)\<close>.
\<close>

definition newInfluxDBv1 :: "world \<Rightarrow> optionsV1 \<Rightarrow> (error + influxDBv1) \<times> event list" where
  "newInfluxDBv1 w opts =
     (let c = V1MetaClient (metaDir opts) in
      emit [Open c (handle_Open w c)]
      (case handle_Open w c of
         Some err \<Rightarrow> (Inl (''error opening 1.x meta.db: '' @ err), [])
       | None \<Rightarrow> (Inr (InfluxDBv1 c), [])))"

text \<open>
  \<^verbatim>\<open>newInfluxDBv2\<close> (lines 497 to 572). The constructors that cannot fail
  (\<^verbatim>\<open>bolt.NewClient\<close>, \<^verbatim>\<open>bolt.NewKVStore\<close>, \<^verbatim>\<open>tenant.NewStore\<close>, \<^verbatim>\<open>meta.NewClient\<close>,
  \<^verbatim>\<open>storage.NewEngine\<close> and the services) cause no event. Every \<^verbatim>\<open>return nil, err\<close> of
  the source is a branch returning \<open>Inl err\<close>.
\<close>

definition newInfluxDBv2 ::
  "world \<Rightarrow> optionsV2 \<Rightarrow> Level \<Rightarrow> (error + influxDBv2) \<times> event list" where
  "newInfluxDBv2 w opts log =
     (let svc_boltClient = BoltClient (boltPath opts) in
      emit [Open svc_boltClient (handle_Open w svc_boltClient)]
      (case handle_Open w svc_boltClient of
         Some err \<Rightarrow> (Inl err, log_Error log ''Failed opening bolt'' [(''error'', err)])
       | None \<Rightarrow>
          (let svc_store = BoltKVStore (boltPath opts) in
           emit [Call NewMigrator]
           (case migration_NewMigrator w of
              Some err \<Rightarrow>
                (Inl err, log_Error log ''Failed to initialize kv migrator'' [(''error'', err)])
            | None \<Rightarrow>
               emit [Call MigratorUp]
               (case migrator_Up w of
                  Some err \<Rightarrow>
                    (Inl err, log_Error log ''Failed to apply migrations'' [(''error'', err)])
                | None \<Rightarrow>
                   (let svc_meta = MetaClient in
                    emit [Open svc_meta (handle_Open w svc_meta)]
                    (case handle_Open w svc_meta of
                       Some err \<Rightarrow> (Inl err, [])
                     | None \<Rightarrow>
                        emit [Call NewStoreV2]
                        (case authorization_NewStore w of
                           Some err \<Rightarrow> (Inl err, [])
                         | None \<Rightarrow>
                            emit [Call NewStoreV1]
                            (case authv1_NewStore w of
                               Some err \<Rightarrow> (Inl err, [])
                             | None \<Rightarrow>
                                (Inr \<lparr>boltClient = svc_boltClient, store = svc_store,
                                      meta = svc_meta\<rparr>, []))))))))))"

text \<open>
  The method \<^verbatim>\<open>influxDBv2.close\<close> (lines 292 to 306): the first \<^verbatim>\<open>Close()\<close> that
  fails ends it.
\<close>

definition close :: "world \<Rightarrow> influxDBv2 \<Rightarrow> error option \<times> event list" where
  "close w i =
     emit [Close (meta i) (handle_Close w (meta i))]
     (case handle_Close w (meta i) of
        Some err \<Rightarrow> (Some err, [])
      | None \<Rightarrow>
         emit [Close (boltClient i) (handle_Close w (boltClient i))]
         (case handle_Close w (boltClient i) of
            Some err \<Rightarrow> (Some err, [])
          | None \<Rightarrow>
             emit [Close (store i) (handle_Close w (store i))]
             (case handle_Close w (store i) of
                Some err \<Rightarrow> (Some err, [])
              | None \<Rightarrow> (None, []))))"

text \<open>The deferred function of \<^verbatim>\<open>runUpgradeE\<close> (lines 368 to 372): its events.\<close>

definition deferred_close :: "world \<Rightarrow> Level \<Rightarrow> influxDBv2 \<Rightarrow> event list" where
  "deferred_close w log v2 =
     (case close w v2 of
        (Some err, t) \<Rightarrow> t @ log_Error log ''Failed to close 2.0 services.'' [(''error'', err)]
      | (None, t) \<Rightarrow> t)"

subsection \<open>runUpgradeE\<close>

text \<open>
  The block run when \<^verbatim>\<open>upgradeDatabases\<close> fails (lines 403 to 411): both deletions are
  tried, and an error of either is logged.
\<close>

definition remove_data :: "world \<Rightarrow> Level \<Rightarrow> optionsV2 \<Rightarrow> event list" where
  "remove_data w log targetOpts =
     log_Info log ''Database upgrade error, removing data'' [] @
     [Remove (boltPath targetOpts)] @
     (case os_Remove w (boltPath targetOpts) of
        Some e \<Rightarrow> log_Error log ''Unable to remove bolt database.'' [(''error'', e)]
      | None \<Rightarrow> []) @
     [RemoveAll (enginePath targetOpts)] @
     (case os_RemoveAll w (enginePath targetOpts) of
        Some e \<Rightarrow> log_Error log ''Unable to remove time series data.'' [(''error'', e)]
      | None \<Rightarrow> [])"

definition v1_auth_warning :: string where
  "v1_auth_warning =
     ''V1 users were upgraded, but V1 auth was not enabled. Existing clients will fail authentication against V2 if using invalid credentials.''"

text \<open>
  Lines 374 to 427 of \<^verbatim>\<open>runUpgradeE\<close>: the statements that run under the deferred
  close, from the onboarding check to the final \<^verbatim>\<open>return nil\<close>. \<open>log\<close> and
  \<open>authEnabled\<close> are the local variables of those names.
\<close>

definition runUpgradeE_phases ::
  "world \<Rightarrow> Level \<Rightarrow> bool \<Rightarrow> globals \<Rightarrow> (error option \<times> globals) \<times> event list" where
  "runUpgradeE_phases w log authEnabled g =
     emit [Call IsOnboarding]
     (case onboardSvc_IsOnboarding w of
        Inl err \<Rightarrow> ((Some err, g), [])
      | Inr canOnboard \<Rightarrow>
         if \<not> canOnboard then ((Some ''InfluxDB has been already set up'', g), [])
         else
           emit [Call OnboardingRequest]
           (case onboardingRequest w of
              Some err \<Rightarrow> ((Some err, g), [])
            | None \<Rightarrow>
               emit [Call SetupAdmin]
               (case setupAdmin w of
                  Inl err \<Rightarrow> ((Some err, g), [])
                | Inr res \<Rightarrow>
                   (let g = g\<lparr>options := (options g)\<lparr>target := (target (options g))
                                \<lparr>orgID := Org_ID res, userID := User_ID res,
                                 token := Auth_Token res\<rparr>\<rparr>\<rparr>
                    in emit [Call SaveLocalConfig]
                      (case saveLocalConfig w of
                         Some err \<Rightarrow> ((Some err, g), [])
                       | None \<Rightarrow>
                          emit [Call UpgradeDatabases]
                          (case upgradeDatabases w of
                             Inl err \<Rightarrow> ((Some err, g), remove_data w log (target (options g)))
                           | Inr db2BucketIds \<Rightarrow>
                              emit [Call UpgradeUsers]
                              (case upgradeUsers w of
                                 Inl err \<Rightarrow> ((Some err, g), [])
                               | Inr usersUpgraded \<Rightarrow>
                                  ((None, g),
                                   (if usersUpgraded > 0 \<and> \<not> authEnabled
                                    then log_Warn log v1_auth_warning [] else []) @
                                   log_Info log
                                     ''Upgrade successfully completed. Start service now'' []))))))))"

text \<open>
  \<^verbatim>\<open>runUpgradeE\<close> from its start to the \<^verbatim>\<open>defer\<close> statement (lines 310 to 366); the
  package variables are passed in and returned. The log level is parsed, the logger
  built, the paths validated, the configuration file upgraded when one is named (the
  block of lines 339 to 353 writes four source options and sets \<^verbatim>\<open>authEnabled\<close>), and
  both services opened. Every \<^verbatim>\<open>return err\<close> is a branch returning \<open>Inl\<close>; \<open>Inr\<close>
  carries the local variables \<^verbatim>\<open>log\<close>, \<^verbatim>\<open>authEnabled\<close>, \<^verbatim>\<open>v1\<close> and \<^verbatim>\<open>v2\<close> to the
  rest.
\<close>

definition runUpgradeE_setup ::
  "world \<Rightarrow> globals \<Rightarrow>
     ((error + Level \<times> bool \<times> influxDBv1 \<times> influxDBv2) \<times> globals) \<times> event list" where
  "runUpgradeE_setup w g0 =
     (let g = (if \<not> fluxInitialized g0 then g0\<lparr>fluxInitialized := True\<rparr> else g0) in
      emit (if \<not> fluxInitialized g0 then [Call FluxInit] else [])
      (case lvl_Set w (logLevel (options g)) of
         Inl err \<Rightarrow>
           ((Inl ''unknown log level; supported levels are debug, info, warn and error'', g), [])
       | Inr log \<Rightarrow>
          emit [Call ConfigBuild]
          (case config_Build w of
             Some err \<Rightarrow> ((Inl err, g), [])
           | None \<Rightarrow>
              (case validatePaths w (source (options g)) (target (options g)) of
                 ((verr, sourceOpts, targetOpts), vt) \<Rightarrow>
                   (let g = g\<lparr>options := (options g)\<lparr>source := sourceOpts, target := targetOpts\<rparr>\<rparr>
                    in emit vt
                      (case verr of
                         Some err \<Rightarrow> ((Inl err, g), [])
                       | None \<Rightarrow>
                          emit (log_Info log ''Starting InfluxDB 1.x upgrade'' [])
                          (case
                             (if configFile (source (options g)) \<noteq> [] then
                                emit (log_Info log ''Upgrading config file''
                                        [(''file'', configFile (source (options g)))] @
                                      [Call UpgradeConfig])
                                (case upgradeConfig w of
                                   Inl err \<Rightarrow> (Inl err, [])
                                 | Inr v1Config \<Rightarrow>
                                    (Inr (Http_AuthEnabled v1Config,
                                          g\<lparr>options := (options g)\<lparr>source := (source (options g))
                                              \<lparr>metaDir := Meta_Dir v1Config,
                                               dataDir := Data_Dir v1Config,
                                               walDir := Data_WALDir v1Config,
                                               dbURL := configV1_dbURL (url_escapeHost w) v1Config\<rparr>\<rparr>\<rparr>),
                                     []))
                              else
                                (Inr (False, g),
                                 log_Info log
                                   ''No InfluxDB 1.x config file specified, skipping its upgrade'' []))
                           of
                             (Inl err, t) \<Rightarrow> ((Inl err, g), t)
                           | (Inr (authEnabled, g), t) \<Rightarrow>
                              emit (t @
                                log_Info log ''Upgrade source paths''
                                   [(''meta'', metaDir (source (options g))),
                                    (''data'', dataDir (source (options g)))] @
                                log_Info log ''Upgrade target paths''
                                   [(''bolt'', boltPath (target (options g))),
                                    (''engine'', enginePath (target (options g)))])
                              (case newInfluxDBv1 w (source (options g)) of
                                 (Inl err, t1) \<Rightarrow> ((Inl err, g), t1)
                               | (Inr v1, t1) \<Rightarrow>
                                  emit t1
                                  (case newInfluxDBv2 w (target (options g)) log of
                                     (Inl err, t2) \<Rightarrow> ((Inl err, g), t2)
                                   | (Inr v2, t2) \<Rightarrow>
                                      ((Inr (log, authEnabled, v1, v2), g), t2))))))))))"

text \<open>
  \<^verbatim>\<open>runUpgradeE\<close>: an error before the \<^verbatim>\<open>defer\<close> statement is returned as it is; after
  it, the deferred close runs when the rest of the function has returned, and cannot
  change the error returned.
\<close>

definition runUpgradeE :: "world \<Rightarrow> globals \<Rightarrow> (error option \<times> globals) \<times> event list" where
  "runUpgradeE w g0 =
     (case runUpgradeE_setup w g0 of
        ((Inl err, g), t) \<Rightarrow> ((Some err, g), t)
      | ((Inr (log, authEnabled, v1, v2), g), t) \<Rightarrow>
          (case runUpgradeE_phases w log authEnabled g of
             (r, t3) \<Rightarrow> (r, t @ t3 @ deferred_close w log v2)))"

section \<open>What the properties speak of\<close>

subsection \<open>The path checks in the specification's words\<close>

definition path_exists :: "world \<Rightarrow> string \<Rightarrow> bool" where
  "path_exists w p = (\<not> isl (os_Stat w p))"

definition is_directory :: "world \<Rightarrow> string \<Rightarrow> bool" where
  "is_directory w p = (case os_Stat w p of Inr fi \<Rightarrow> IsDir fi | Inl err \<Rightarrow> False)"

text \<open>
  A list of checks, each with whether it holds and the message of its violation; the
  first violated check decides.
\<close>

fun first_violation :: "(bool \<times> error) list \<Rightarrow> error option" where
  "first_violation [] = None"
| "first_violation ((ok, msg) # cs) = (if ok then first_violation cs else Some msg)"

text \<open>
  The checks in the order of the specification: the source root exists and is a
  directory; \<^verbatim>\<open>meta.db\<close> exists under the source's meta subdirectory; a legacy config
  path, if given, exists, and the path of its translation does not; the target bolt path
  does not exist; the target engine path, if it exists, is a directory, can be listed, and
  is empty; the target CLI configs path does not exist; the target continuous query
  export path does not exist. Each message is spelled out, with the path between two
  single quotes (the character \<open>CHR 0x27\<close>). A listing that fails is reported by the
  error of \<^verbatim>\<open>ioutil.ReadDir\<close> itself.
\<close>

definition path_checks :: "world \<Rightarrow> optionsV1 \<Rightarrow> optionsV2 \<Rightarrow> (bool \<times> error) list" where
  "path_checks w src tgt =
     (let metaDb = filepath_Join w (filepath_Join w (dbDir src) ''meta'') ''meta.db'';
          v2Config = translateV1ConfigPath w (configFile src);
          engine = enginePath tgt
      in
      [(path_exists w (dbDir src), ''1.x DB dir '' @ [CHR 0x27] @ (dbDir src) @ [CHR 0x27] @ '' does not exist''),
       (is_directory w (dbDir src), ''1.x DB dir '' @ [CHR 0x27] @ (dbDir src) @ [CHR 0x27] @ '' is not a directory''),
       (path_exists w metaDb, ''1.x meta.db '' @ [CHR 0x27] @ metaDb @ [CHR 0x27] @ '' does not exist''),
       (configFile src = [] \<or> path_exists w (configFile src),
          ''1.x config file '' @ [CHR 0x27] @ (configFile src) @ [CHR 0x27] @ '' does not exist''),
       (configFile src = [] \<or> \<not> path_exists w v2Config,
          ''file present at target path for upgraded 2.x config file '' @ [CHR 0x27] @ v2Config @ [CHR 0x27]),
       (\<not> path_exists w (boltPath tgt),
          ''file present at target path for upgraded 2.x bolt DB: '' @ [CHR 0x27] @ (boltPath tgt) @ [CHR 0x27]),
       (\<not> path_exists w engine \<or> is_directory w engine,
          ''upgraded 2.x engine path '' @ [CHR 0x27] @ engine @ [CHR 0x27] @ '' is not a directory''),
       (\<not> path_exists w engine \<or> \<not> isl (ioutil_ReadDir w engine),
          (case ioutil_ReadDir w engine of Inl err \<Rightarrow> err | Inr entries \<Rightarrow> [])),
       (\<not> path_exists w engine \<or> ioutil_ReadDir w engine = Inr [],
          ''upgraded 2.x engine directory '' @ [CHR 0x27] @ engine @ [CHR 0x27] @ '' must be empty''),
       (\<not> path_exists w (cliConfigsPath tgt),
          ''file present at target path for 2.x CLI configs '' @ [CHR 0x27] @ (cliConfigsPath tgt) @ [CHR 0x27]),
       (\<not> path_exists w (cqPath tgt),
          ''file present at target path for exported continuous queries '' @ [CHR 0x27] @ (cqPath tgt) @ [CHR 0x27])])"

text \<open>
  The file system reads of a validation that passes every check, in the order of the
  specification.
\<close>

definition inspections :: "world \<Rightarrow> optionsV1 \<Rightarrow> optionsV2 \<Rightarrow> event list" where
  "inspections w src tgt =
     [Stat (dbDir src), Stat (filepath_Join w (filepath_Join w (dbDir src) ''meta'') ''meta.db'')] @
     (if configFile src = [] then []
      else [Stat (configFile src), Stat (translateV1ConfigPath w (configFile src))]) @
     [Stat (boltPath tgt), Stat (enginePath tgt)] @
     (if is_directory w (enginePath tgt) then [ReadDir (enginePath tgt)] else []) @
     [Stat (cliConfigsPath tgt), Stat (cqPath tgt)]"

text \<open>The path a file system event is about.\<close>

fun event_path :: "event \<Rightarrow> string" where
  "event_path (Stat p) = p"
| "event_path (ReadDir p) = p"
| "event_path (Remove p) = p"
| "event_path (RemoveAll p) = p"
| "event_path e = []"

text \<open>
  An error names the offending path: the message holds, between single quotes, the path
  that was inspected last; or else the last inspection was the listing of a directory and
  the error is that of \<^verbatim>\<open>ioutil.ReadDir\<close>, unchanged.
\<close>

definition names_path :: "world \<Rightarrow> error option \<Rightarrow> event list \<Rightarrow> bool" where
  "names_path w r t =
     (case r of
        None \<Rightarrow> True
      | Some msg \<Rightarrow>
          t \<noteq> [] \<and>
          (sublist ([CHR 0x27] @ event_path (last t) @ [CHR 0x27]) msg \<or>
           last t = ReadDir (event_path (last t)) \<and>
           ioutil_ReadDir w (event_path (last t)) = Inl msg))"

subsection \<open>Kinds of events\<close>

fun is_read :: "event \<Rightarrow> bool" where
  "is_read (Stat p) = True"
| "is_read (ReadDir p) = True"
| "is_read e = False"

fun is_deletion :: "event \<Rightarrow> bool" where
  "is_deletion (Remove p) = True"
| "is_deletion (RemoveAll p) = True"
| "is_deletion e = False"

fun is_log :: "event \<Rightarrow> bool" where
  "is_log (LogInfo m fs) = True"
| "is_log (LogError m fs) = True"
| "is_log (LogWarn m fs) = True"
| "is_log e = False"

fun is_close :: "event \<Rightarrow> bool" where
  "is_close (Close h r) = True"
| "is_close e = False"

text \<open>
  The handles a trace leaves open: those an \<^verbatim>\<open>Open()\<close> returned without error, less
  those a \<^verbatim>\<open>Close()\<close> was called on.
\<close>

fun opened :: "event \<Rightarrow> handle list" where
  "opened (Open h None) = [h]"
| "opened e = []"

fun closed :: "event \<Rightarrow> handle list" where
  "closed (Close h r) = [h]"
| "closed e = []"

definition held :: "event list \<Rightarrow> handle list" where
  "held t = filter (\<lambda>h. h \<notin> set (concat (map closed t))) (concat (map opened t))"

text \<open>
  A bound on the events of \<^verbatim>\<open>runUpgradeE\<close> before its \<^verbatim>\<open>defer\<close> statement.
\<close>

fun setup_call :: "call \<Rightarrow> bool" where
  "setup_call FluxInit = True"
| "setup_call ConfigBuild = True"
| "setup_call UpgradeConfig = True"
| "setup_call NewMigrator = True"
| "setup_call MigratorUp = True"
| "setup_call NewStoreV2 = True"
| "setup_call NewStoreV1 = True"
| "setup_call c = False"

fun setup_event :: "event \<Rightarrow> bool" where
  "setup_event (Stat p) = True"
| "setup_event (ReadDir p) = True"
| "setup_event (Open h r) = True"
| "setup_event (Call c) = setup_call c"
| "setup_event (LogInfo m fs) = True"
| "setup_event (LogError m fs) =
     (m = ''Failed opening bolt'' \<or> m = ''Failed to initialize kv migrator'' \<or>
      m = ''Failed to apply migrations'')"
| "setup_event e = False"

subsection \<open>The steps of a run\<close>

text \<open>The first error of a sequence of steps, if any.\<close>

fun first_error :: "error option list \<Rightarrow> error option" where
  "first_error [] = None"
| "first_error (None # es) = first_error es"
| "first_error (Some err # es) = Some err"

fun err_of :: "error + 'a \<Rightarrow> error option" where
  "err_of (Inl err) = Some err"
| "err_of (Inr x) = None"

text \<open>
  The steps of \<^verbatim>\<open>runUpgradeE\<close> that can fail, in the order of the source, each with the
  error that the run returns when the step fails: before the \<^verbatim>\<open>defer\<close> statement the
  log level, the logger, the validation of the paths, the upgrade of the configuration
  file if one is named, the opening of the 1.x meta client (on the meta directory of the
  upgraded configuration, or else on the one under the source root) and the six steps of
  \<^verbatim>\<open>newInfluxDBv2\<close>; after it the onboarding check, the onboarding request, the set-up of
  the admin, the saving of the local configuration, the upgrade of the databases and the
  upgrade of the users.
\<close>

definition setup_steps :: "world \<Rightarrow> globals \<Rightarrow> error option list" where
  "setup_steps w g =
     (let src = source (options g);
          tgt = target (options g);
          metaDir1 =
            (case upgradeConfig w of
               Inr c \<Rightarrow> if configFile src \<noteq> [] then Meta_Dir c
                        else filepath_Join w (dbDir src) ''meta''
             | Inl e \<Rightarrow> filepath_Join w (dbDir src) ''meta'')
      in [map_option (\<lambda>e. ''unknown log level; supported levels are debug, info, warn and error'')
            (err_of (lvl_Set w (logLevel (options g)))),
          config_Build w,
          fst (fst (validatePaths w src tgt)),
          if configFile src \<noteq> [] then err_of (upgradeConfig w) else None,
          map_option (\<lambda>e. ''error opening 1.x meta.db: '' @ e)
            (handle_Open w (V1MetaClient metaDir1)),
          handle_Open w (BoltClient (boltPath tgt)),
          migration_NewMigrator w,
          migrator_Up w,
          handle_Open w MetaClient,
          authorization_NewStore w,
          authv1_NewStore w])"

definition phase_steps :: "world \<Rightarrow> error option list" where
  "phase_steps w =
     [case onboardSvc_IsOnboarding w of
        Inl e \<Rightarrow> Some e
      | Inr canOnboard \<Rightarrow>
          if canOnboard then None else Some ''InfluxDB has been already set up'',
      onboardingRequest w,
      err_of (setupAdmin w),
      saveLocalConfig w,
      err_of (upgradeDatabases w),
      err_of (upgradeUsers w)]"

subsection \<open>Concrete inputs\<close>

text \<open>
  A 1.x directory \<^verbatim>\<open>/v1\<close> with its \<^verbatim>\<open>meta/meta.db\<close>, nothing at the target paths, and
  every call succeeding. On these paths \<^verbatim>\<open>filepath.Join\<close> puts a slash between its
  arguments, and no host needs escaping.
\<close>

text \<open>
  \<^verbatim>\<open>lvl.Set\<close> on the lower-case names of the levels and on the empty string, as zap
  reads them; the concrete runs use no other string.
\<close>

definition level_of_name :: "string \<Rightarrow> error + Level" where
  "level_of_name s =
     (if s = ''debug'' then Inr DebugLevel
      else if s = ''info'' \<or> s = [] then Inr InfoLevel
      else if s = ''warn'' then Inr WarnLevel
      else if s = ''error'' then Inr ErrorLevel
      else if s = ''dpanic'' then Inr DPanicLevel
      else if s = ''panic'' then Inr PanicLevel
      else if s = ''fatal'' then Inr FatalLevel
      else Inl (''unrecognized level: '' @ s))"

definition cfg0 :: configV1 where
  "cfg0 = \<lparr>Meta_Dir = ''/v1/meta'', Data_Dir = ''/v1/data'', Data_WALDir = ''/v1/wal'',
           Http_BindAddress = [], Http_HttpsEnabled = False, Http_AuthEnabled = False\<rparr>"

definition world0 :: world where
  "world0 =
     \<lparr>os_Stat = (\<lambda>p. if p = ''/v1'' then Inr (FileInfo True)
                     else if p = ''/v1/meta/meta.db'' then Inr (FileInfo False)
                     else Inl ''no such file or directory''),
      ioutil_ReadDir = (\<lambda>p. Inr []),
      os_Remove = (\<lambda>p. None),
      os_RemoveAll = (\<lambda>p. None),
      filepath_Join = (\<lambda>a b. a @ ''/'' @ b),
      url_escapeHost = (\<lambda>h. h),
      translateV1ConfigPath = (\<lambda>p. ''/v2/config.toml''),
      lvl_Set = level_of_name,
      config_Build = None,
      upgradeConfig = Inr cfg0,
      handle_Open = (\<lambda>h. None),
      handle_Close = (\<lambda>h. None),
      migration_NewMigrator = None,
      migrator_Up = None,
      authorization_NewStore = None,
      authv1_NewStore = None,
      onboardSvc_IsOnboarding = Inr True,
      onboardingRequest = None,
      setupAdmin = Inr \<lparr>Org_ID = 1, User_ID = 2, Auth_Token = ''t0''\<rparr>,
      saveLocalConfig = None,
      upgradeDatabases = Inr [],
      upgradeUsers = Inr 3\<rparr>"

definition source0 :: optionsV1 where
  "source0 = \<lparr>metaDir = [], walDir = [], dataDir = [], dbURL = [], dbDir = ''/v1'',
               configFile = []\<rparr>"

definition target0 :: optionsV2 where
  "target0 = \<lparr>boltPath = ''/v2/bolt'', cliConfigsPath = ''/v2/configs'',
               enginePath = ''/v2/engine'', cqPath = ''/v2/cq'', userName = ''admin'',
               password = ''12345678'', orgName = ''org'', bucket = ''b'', orgID = 0,
               userID = 0, token = [], retention = []\<rparr>"

definition globals0 :: globals where
  "globals0 =
     \<lparr>options = \<lparr>source = source0, target = target0, verbose = True, logLevel = ''info'',
                  logPath = ''/v2/upgrade.log'', force = False\<rparr>,
      fluxInitialized = False\<rparr>"

text \<open>The same, with an engine directory that holds an entry.\<close>

definition world_engine_in_use :: world where
  "world_engine_in_use =
     world0\<lparr>os_Stat := (\<lambda>p. if p = ''/v2/engine'' then Inr (FileInfo True) else os_Stat world0 p),
            ioutil_ReadDir := (\<lambda>p. Inr [''data''])\<rparr>"

text \<open>Worlds in which the database upgrade fails, and in which the deletions fail too.\<close>

definition world_databases_fail :: world where
  "world_databases_fail = world0\<lparr>upgradeDatabases := Inl ''shard copy failed''\<rparr>"

definition world_rollback_fails :: world where
  "world_rollback_fails =
     world0\<lparr>upgradeDatabases := Inl ''shard copy failed'',
            os_Remove := (\<lambda>p. Some ''file is locked''),
            os_RemoveAll := (\<lambda>p. Some ''permission denied'')\<rparr>"

text \<open>
  A world whose engine directory exists and cannot be listed, and the options of runs at
  the log levels \<^verbatim>\<open>error\<close> and \<^verbatim>\<open>fatal\<close>.
\<close>

definition world_engine_unreadable :: world where
  "world_engine_unreadable =
     world0\<lparr>os_Stat := (\<lambda>p. if p = ''/v2/engine'' then Inr (FileInfo True) else os_Stat world0 p),
            ioutil_ReadDir := (\<lambda>p. Inl ''readdirent: input/output error'')\<rparr>"

definition globals_level_error :: globals where
  "globals_level_error = globals0\<lparr>options := (options globals0)\<lparr>logLevel := ''error''\<rparr>\<rparr>"

definition globals_level_fatal :: globals where
  "globals_level_fatal = globals0\<lparr>options := (options globals0)\<lparr>logLevel := ''fatal''\<rparr>\<rparr>"

text \<open>A world in which bolt opens and the migration of the metadata store fails.\<close>

definition world_migration_fails :: world where
  "world_migration_fails = world0\<lparr>migrator_Up := Some ''migration failed''\<rparr>"

section \<open>Properties of dbURL\<close>

lemma dbURL_url_Host:
  "Host (configV1_dbURL_url c) =
     (if Http_BindAddress c = [] then ''localhost:8086''
      else if HasPrefix (Http_BindAddress c) '':'' then ''localhost'' @ Http_BindAddress c
      else Http_BindAddress c)"
  by (simp add: configV1_dbURL_url_def HasPrefix_def Let_def)

lemma dbURL_url_Scheme:
  "Scheme (configV1_dbURL_url c) = (if Http_HttpsEnabled c then ''https'' else ''http'')"
  by (simp add: configV1_dbURL_url_def Let_def)

lemma dbURL_url_Host_nonempty: "Host (configV1_dbURL_url c) \<noteq> []"
  by (simp add: dbURL_url_Host)

lemma dbURL_string:
  "configV1_dbURL esc c =
     Scheme (configV1_dbURL_url c) @ ''://'' @ esc (Host (configV1_dbURL_url c))"
  by (simp add: configV1_dbURL_def URL_String_def dbURL_url_Host_nonempty dbURL_url_Scheme)

lemma not_shouldEscape_localhost:
  "list_all (\<lambda>x. \<not> shouldEscape_encodeHost x) ''localhost''"
  by (simp add: shouldEscape_encodeHost_def)

lemma escape_encodeHost_unchanged:
  "list_all (\<lambda>x. \<not> shouldEscape_encodeHost x) s \<Longrightarrow> escape_encodeHost s = s"
  by (induction s) (simp_all add: escape_encodeHost_def)

text \<open>
  C4, as amended: for every legacy configuration whose bind address is not empty, the
  URL that \<^verbatim>\<open>dbURL\<close> returns is the scheme, \<^verbatim>\<open>://\<close> and the escaped host, where the
  host is \<^verbatim>\<open>localhost\<close> followed by the bind address when the bind address begins with a
  colon, and the bind address otherwise. With the escaping of \<^verbatim>\<open>net/url\<close>, the host is
  returned unchanged when no byte of the bind address needs escaping; any other byte is
  percent-encoded.
\<close>

theorem dbURL_host_of_nonempty_bind_address:
  assumes "Http_BindAddress c \<noteq> []"
  shows "Host (configV1_dbURL_url c) =
           (if HasPrefix (Http_BindAddress c) '':'' then ''localhost'' @ Http_BindAddress c
            else Http_BindAddress c) \<and>
         configV1_dbURL esc c =
           (if Http_HttpsEnabled c then ''https'' else ''http'') @ ''://'' @
           esc (if HasPrefix (Http_BindAddress c) '':'' then ''localhost'' @ Http_BindAddress c
                else Http_BindAddress c) \<and>
         (list_all (\<lambda>x. \<not> shouldEscape_encodeHost x) (Http_BindAddress c) \<longrightarrow>
            configV1_dbURL escape_encodeHost c =
              (if Http_HttpsEnabled c then ''https'' else ''http'') @ ''://'' @
              (if HasPrefix (Http_BindAddress c) '':'' then ''localhost'' @ Http_BindAddress c
               else Http_BindAddress c))"
proof -
  have host: "Host (configV1_dbURL_url c) =
      (if HasPrefix (Http_BindAddress c) '':'' then ''localhost'' @ Http_BindAddress c
       else Http_BindAddress c)"
    using assms by (simp add: dbURL_url_Host)
  have safe: "escape_encodeHost (Host (configV1_dbURL_url c)) = Host (configV1_dbURL_url c)"
    if "list_all (\<lambda>x. \<not> shouldEscape_encodeHost x) (Http_BindAddress c)"
    using that not_shouldEscape_localhost
    by (intro escape_encodeHost_unchanged) (simp add: host)
  show ?thesis
    using safe by (simp add: dbURL_string dbURL_url_Scheme host [symmetric])
qed

theorem dbURL_host_of_nonempty_bind_address_witness:
  "Http_BindAddress (cfg0\<lparr>Http_BindAddress := '':9999''\<rparr>) \<noteq> [] \<and>
   Host (configV1_dbURL_url (cfg0\<lparr>Http_BindAddress := '':9999''\<rparr>)) = ''localhost:9999'' \<and>
   configV1_dbURL escape_encodeHost (cfg0\<lparr>Http_BindAddress := '':9999''\<rparr>) =
     ''http://localhost:9999'' \<and>
   Http_BindAddress (cfg0\<lparr>Http_BindAddress := ''db.example.com:8086''\<rparr>) \<noteq> [] \<and>
   configV1_dbURL escape_encodeHost (cfg0\<lparr>Http_BindAddress := ''db.example.com:8086''\<rparr>) =
     ''http://db.example.com:8086'' \<and>
   Http_BindAddress (cfg0\<lparr>Http_BindAddress := ''my host:80''\<rparr>) \<noteq> [] \<and>
   configV1_dbURL escape_encodeHost (cfg0\<lparr>Http_BindAddress := ''my host:80''\<rparr>) =
     ''http://my%20host:80''"
proof -
  have safe: "list_all (\<lambda>x. \<not> shouldEscape_encodeHost x) '':9999''"
    "list_all (\<lambda>x. \<not> shouldEscape_encodeHost x) ''db.example.com:8086''"
    by (simp_all add: shouldEscape_encodeHost_def)
  have space: "escape_encodeHost ''my host:80'' = ''my%20host:80''"
    by (simp add: escape_encodeHost_def shouldEscape_encodeHost_def upperhex_def)
  have port: "configV1_dbURL escape_encodeHost (cfg0\<lparr>Http_BindAddress := '':9999''\<rparr>) =
      ''http://localhost:9999''"
    using dbURL_host_of_nonempty_bind_address
      [of "cfg0\<lparr>Http_BindAddress := '':9999''\<rparr>" escape_encodeHost,
        THEN conjunct2, THEN conjunct2] safe(1)
    by (simp add: cfg0_def HasPrefix_def)
  have name: "configV1_dbURL escape_encodeHost (cfg0\<lparr>Http_BindAddress := ''db.example.com:8086''\<rparr>) =
      ''http://db.example.com:8086''"
    using dbURL_host_of_nonempty_bind_address
      [of "cfg0\<lparr>Http_BindAddress := ''db.example.com:8086''\<rparr>" escape_encodeHost,
        THEN conjunct2, THEN conjunct2] safe(2)
    by (simp add: cfg0_def HasPrefix_def)
  have blank: "configV1_dbURL escape_encodeHost (cfg0\<lparr>Http_BindAddress := ''my host:80''\<rparr>) =
      ''http://my%20host:80''"
    using dbURL_host_of_nonempty_bind_address
      [of "cfg0\<lparr>Http_BindAddress := ''my host:80''\<rparr>" escape_encodeHost,
        THEN conjunct2, THEN conjunct1] space
    by (simp add: cfg0_def HasPrefix_def)
  show ?thesis
    using port name blank by (simp add: cfg0_def dbURL_url_Host HasPrefix_def)
qed

text \<open>
  C4 as stated fails at the empty bind address: it does not begin with a colon, and the
  host is not the empty address but that of the default. It fails too at an address with a
  space: the host of the URL returned is not the address unchanged.
\<close>

theorem dbURL_host_empty_bind_address_counterexample:
  "Http_BindAddress cfg0 = [] \<and> \<not> HasPrefix (Http_BindAddress cfg0) '':'' \<and>
   Host (configV1_dbURL_url cfg0) \<noteq> Http_BindAddress cfg0 \<and>
   configV1_dbURL escape_encodeHost cfg0 = ''http://localhost:8086'' \<and>
   \<not> HasPrefix ''my host:80'' '':'' \<and>
   configV1_dbURL escape_encodeHost (cfg0\<lparr>Http_BindAddress := ''my host:80''\<rparr>) =
     ''http://my%20host:80''"
  by (simp add: cfg0_def HasPrefix_def dbURL_url_Host dbURL_string dbURL_url_Scheme
        escape_encodeHost_def shouldEscape_encodeHost_def upperhex_def)

text \<open>
  C9: for every legacy configuration the scheme of the URL that \<^verbatim>\<open>dbURL\<close> builds is
  \<^verbatim>\<open>https\<close> if and only if \<^verbatim>\<open>https-enabled\<close> is true, and \<^verbatim>\<open>http\<close> otherwise; the
  string returned starts with that scheme.
\<close>

theorem dbURL_scheme_https_iff_enabled:
  "(Scheme (configV1_dbURL_url c) = ''https'') = Http_HttpsEnabled c \<and>
   (Scheme (configV1_dbURL_url c) = ''http'') = (\<not> Http_HttpsEnabled c) \<and>
   configV1_dbURL esc c =
     Scheme (configV1_dbURL_url c) @ ''://'' @ esc (Host (configV1_dbURL_url c))"
  by (simp add: dbURL_url_Scheme dbURL_string)

theorem dbURL_scheme_https_iff_enabled_witness:
  "Scheme (configV1_dbURL_url (cfg0\<lparr>Http_HttpsEnabled := True\<rparr>)) = ''https'' \<and>
   configV1_dbURL (\<lambda>h. h) (cfg0\<lparr>Http_HttpsEnabled := True\<rparr>) = ''https://localhost:8086'' \<and>
   Scheme (configV1_dbURL_url cfg0) = ''http'' \<and>
   configV1_dbURL (\<lambda>h. h) cfg0 = ''http://localhost:8086''"
  using dbURL_scheme_https_iff_enabled [of "cfg0\<lparr>Http_HttpsEnabled := True\<rparr>" "\<lambda>h. h"]
    dbURL_scheme_https_iff_enabled [of cfg0 "\<lambda>h. h"]
  by (simp add: cfg0_def dbURL_url_Host HasPrefix_def)

text \<open>
  C10: when the bind address of the legacy configuration is the empty string,
  \<^verbatim>\<open>dbURL\<close> puts the default \<^verbatim>\<open>:8086\<close> in its place: the host of the URL is
  \<^verbatim>\<open>localhost:8086\<close>, not the empty address.
\<close>

theorem dbURL_empty_bind_address_default:
  assumes "Http_BindAddress c = []"
  shows "Host (configV1_dbURL_url c) = ''localhost:8086'' \<and>
         Host (configV1_dbURL_url c) \<noteq> Http_BindAddress c \<and>
         configV1_dbURL esc c =
           (if Http_HttpsEnabled c then ''https'' else ''http'') @ ''://'' @ esc ''localhost:8086''"
  using assms by (simp add: dbURL_url_Host dbURL_string dbURL_url_Scheme)

theorem dbURL_empty_bind_address_default_witness:
  "Http_BindAddress cfg0 = [] \<and> Host (configV1_dbURL_url cfg0) = ''localhost:8086'' \<and>
   configV1_dbURL (\<lambda>h. h) cfg0 = ''http://localhost:8086''"
  using dbURL_empty_bind_address_default [of cfg0 "\<lambda>h. h"]
  by (simp add: cfg0_def)

section \<open>Properties of validatePaths\<close>

text \<open>
  Each statement of \<^verbatim>\<open>validatePaths\<close> is described by the error it returns and by
  its events; the function is then the statements in sequence.
\<close>

lemma fst_emit: "fst (emit es r) = fst r"
  by (simp add: emit_def)

lemma snd_emit: "snd (emit es r) = es @ snd r"
  by (simp add: emit_def)

lemma fst_andThen: "fst (andThen a b) = (case fst a of Some e \<Rightarrow> Some e | None \<Rightarrow> fst b)"
  by (simp add: andThen_def emit_def split: option.split)

lemma snd_andThen: "snd (andThen a b) = (case fst a of Some e \<Rightarrow> snd a | None \<Rightarrow> snd a @ snd b)"
  by (simp add: andThen_def emit_def split: option.split)

lemma fst_validate_configFile:
  "fst (validate_configFile w src) =
     (if configFile src = [] \<or> path_exists w (configFile src)
      then (if configFile src = [] \<or> \<not> path_exists w (translateV1ConfigPath w (configFile src))
            then None
            else Some (''file present at target path for upgraded 2.x config file ''
                       @ [CHR 0x27] @ (translateV1ConfigPath w (configFile src)) @ [CHR 0x27]))
      else Some (''1.x config file '' @ [CHR 0x27] @ (configFile src) @ [CHR 0x27] @ '' does not exist''))"
  by (simp add: validate_configFile_def fst_emit path_exists_def Let_def quoted_def split: sum.split)

lemma fst_validate_boltPath:
  "fst (validate_boltPath w tgt) =
     (if \<not> path_exists w (boltPath tgt) then None
      else Some (''file present at target path for upgraded 2.x bolt DB: '' @ [CHR 0x27] @ (boltPath tgt) @ [CHR 0x27]))"
  by (simp add: validate_boltPath_def fst_emit path_exists_def quoted_def split: sum.split)

lemma fst_validate_cliConfigsPath:
  "fst (validate_cliConfigsPath w tgt) =
     (if \<not> path_exists w (cliConfigsPath tgt) then None
      else Some (''file present at target path for 2.x CLI configs '' @ [CHR 0x27] @ (cliConfigsPath tgt) @ [CHR 0x27]))"
  by (simp add: validate_cliConfigsPath_def fst_emit path_exists_def quoted_def split: sum.split)

lemma fst_validate_cqPath:
  "fst (validate_cqPath w tgt) =
     (if \<not> path_exists w (cqPath tgt) then None
      else Some (''file present at target path for exported continuous queries '' @ [CHR 0x27] @ (cqPath tgt) @ [CHR 0x27]))"
  by (simp add: validate_cqPath_def fst_emit path_exists_def quoted_def split: sum.split)

lemma fst_validate_enginePath:
  "fst (validate_enginePath w tgt) =
     (if \<not> path_exists w (enginePath tgt) \<or> is_directory w (enginePath tgt)
      then (if \<not> path_exists w (enginePath tgt) \<or> \<not> isl (ioutil_ReadDir w (enginePath tgt))
            then (if \<not> path_exists w (enginePath tgt) \<or> ioutil_ReadDir w (enginePath tgt) = Inr []
                  then None
                  else Some (''upgraded 2.x engine directory '' @ [CHR 0x27] @ (enginePath tgt) @ [CHR 0x27] @ '' must be empty''))
            else Some (case ioutil_ReadDir w (enginePath tgt) of Inl err \<Rightarrow> err | Inr entries \<Rightarrow> []))
      else Some (''upgraded 2.x engine path '' @ [CHR 0x27] @ (enginePath tgt) @ [CHR 0x27] @ '' is not a directory''))"
  by (simp add: validate_enginePath_def fst_emit path_exists_def is_directory_def quoted_def split: sum.split)

lemma fst_validatePaths:
  "fst (fst (validatePaths w src tgt)) =
     (if path_exists w (dbDir src) then
        if is_directory w (dbDir src) then
          if path_exists w (filepath_Join w (filepath_Join w (dbDir src) ''meta'') ''meta.db'') then
            fst (andThen (validate_configFile w (populateDirs w src))
                              (andThen (validate_boltPath w tgt)
                                (andThen (validate_enginePath w tgt)
                                  (andThen (validate_cliConfigsPath w tgt)
                                    (validate_cqPath w tgt)))))
          else Some (''1.x meta.db '' @ [CHR 0x27] @
                     filepath_Join w (filepath_Join w (dbDir src) ''meta'') ''meta.db'' @
                     [CHR 0x27] @ '' does not exist'')
        else Some (''1.x DB dir '' @ [CHR 0x27] @ (dbDir src) @ [CHR 0x27] @ '' is not a directory'')
      else Some (''1.x DB dir '' @ [CHR 0x27] @ (dbDir src) @ [CHR 0x27] @ '' does not exist''))"
  by (simp add: validatePaths_def fst_emit path_exists_def is_directory_def populateDirs_def Let_def
       quoted_def split: sum.split)

lemma configFile_populateDirs: "configFile (populateDirs w src) = configFile src"
  by (simp add: populateDirs_def)

lemma vp_refines:
  "fst (fst (validatePaths w src tgt)) = first_violation (path_checks w src tgt)"
  unfolding fst_validatePaths path_checks_def Let_def first_violation.simps fst_andThen
    fst_validate_configFile fst_validate_boltPath fst_validate_enginePath
    fst_validate_cliConfigsPath fst_validate_cqPath configFile_populateDirs
  by (simp del: append.simps split: option.split)


lemma snd_validate_configFile:
  "snd (validate_configFile w src) =
     (if configFile src = [] then []
      else if path_exists w (configFile src)
        then [Stat (configFile src), Stat (translateV1ConfigPath w (configFile src))]
        else [Stat (configFile src)])"
  by (simp add: validate_configFile_def snd_emit path_exists_def Let_def split: sum.split)

lemma snd_validate_boltPath: "snd (validate_boltPath w tgt) = [Stat (boltPath tgt)]"
  by (simp add: validate_boltPath_def snd_emit split: sum.split)

lemma snd_validate_cliConfigsPath: "snd (validate_cliConfigsPath w tgt) = [Stat (cliConfigsPath tgt)]"
  by (simp add: validate_cliConfigsPath_def snd_emit split: sum.split)

lemma snd_validate_cqPath: "snd (validate_cqPath w tgt) = [Stat (cqPath tgt)]"
  by (simp add: validate_cqPath_def snd_emit split: sum.split)

lemma snd_validate_enginePath:
  "snd (validate_enginePath w tgt) =
     Stat (enginePath tgt) # (if is_directory w (enginePath tgt) then [ReadDir (enginePath tgt)] else [])"
  by (simp add: validate_enginePath_def snd_emit is_directory_def split: sum.split)

lemma snd_validatePaths:
  "snd (validatePaths w src tgt) =
     (if is_directory w (dbDir src) then
        Stat (dbDir src) # Stat (filepath_Join w (filepath_Join w (dbDir src) ''meta'') ''meta.db'') #
        (if path_exists w (filepath_Join w (filepath_Join w (dbDir src) ''meta'') ''meta.db'') then
            snd (andThen (validate_configFile w (populateDirs w src))
                              (andThen (validate_boltPath w tgt)
                                (andThen (validate_enginePath w tgt)
                                  (andThen (validate_cliConfigsPath w tgt)
                                    (validate_cqPath w tgt)))))
         else [])
      else [Stat (dbDir src)])"
  by (simp add: validatePaths_def snd_emit path_exists_def is_directory_def populateDirs_def Let_def
       del: append.simps split: sum.split)

lemma vp_prefix:
  "prefix (snd (validatePaths w src tgt)) (inspections w src tgt)"
  unfolding snd_validatePaths inspections_def snd_andThen fst_andThen
    fst_validate_configFile fst_validate_boltPath fst_validate_enginePath
    fst_validate_cliConfigsPath fst_validate_cqPath configFile_populateDirs
    snd_validate_configFile snd_validate_boltPath snd_validate_enginePath
    snd_validate_cliConfigsPath snd_validate_cqPath
  by (simp add: is_directory_def path_exists_def split: sum.split)

lemma vp_complete:
  "fst (fst (validatePaths w src tgt)) = None \<Longrightarrow> snd (validatePaths w src tgt) = inspections w src tgt"
  unfolding fst_validatePaths snd_validatePaths inspections_def snd_andThen fst_andThen
    fst_validate_configFile fst_validate_boltPath fst_validate_enginePath
    fst_validate_cliConfigsPath fst_validate_cqPath configFile_populateDirs
    snd_validate_configFile snd_validate_boltPath snd_validate_enginePath
    snd_validate_cliConfigsPath snd_validate_cqPath
  by (auto simp add: is_directory_def path_exists_def split: sum.splits if_splits)


lemma sublist_quoted1: "sublist ([CHR 0x27] @ p @ [CHR 0x27]) (a @ [CHR 0x27] @ p @ [CHR 0x27] @ b)"
  using sublist_appendI [of "[CHR 0x27] @ p @ [CHR 0x27]" a b] by simp

lemma sublist_quoted2: "sublist ([CHR 0x27] @ p @ [CHR 0x27]) (a @ [CHR 0x27] @ p @ [CHR 0x27])"
  using sublist_appendI [of "[CHR 0x27] @ p @ [CHR 0x27]" a "[]"] by simp

lemma names_path_andThen:
  "names_path w (fst a) (snd a) \<Longrightarrow> names_path w (fst b) (snd b) \<Longrightarrow>
   names_path w (fst (andThen a b)) (snd (andThen a b))"
  by (auto simp add: names_path_def fst_andThen snd_andThen split: option.splits)

lemma names_path_validate_boltPath:
  "names_path w (fst (validate_boltPath w tgt)) (snd (validate_boltPath w tgt))"
  by (simp add: snd_validate_boltPath fst_validate_boltPath names_path_def
        sublist_quoted2 del: append.simps)

lemma names_path_validate_cliConfigsPath:
  "names_path w (fst (validate_cliConfigsPath w tgt)) (snd (validate_cliConfigsPath w tgt))"
  by (simp add: snd_validate_cliConfigsPath fst_validate_cliConfigsPath names_path_def
        sublist_quoted2 del: append.simps)

lemma names_path_validate_cqPath:
  "names_path w (fst (validate_cqPath w tgt)) (snd (validate_cqPath w tgt))"
  by (simp add: snd_validate_cqPath fst_validate_cqPath names_path_def
        sublist_quoted2 del: append.simps)

lemma names_path_validate_configFile:
  "names_path w (fst (validate_configFile w src)) (snd (validate_configFile w src))"
  by (simp add: snd_validate_configFile fst_validate_configFile names_path_def
        sublist_quoted2 sublist_quoted1 del: append.simps)

lemma names_path_validate_enginePath:
  "names_path w (fst (validate_enginePath w tgt)) (snd (validate_enginePath w tgt))"
  by (auto simp add: snd_validate_enginePath fst_validate_enginePath names_path_def
        sublist_quoted2 sublist_quoted1 is_directory_def path_exists_def simp del: append.simps split: sum.splits)

lemma names_path_validatePaths:
  "names_path w (fst (fst (validatePaths w src tgt))) (snd (validatePaths w src tgt))"
proof -
  have rest: "names_path w
     (fst (andThen (validate_configFile w (populateDirs w src))
            (andThen (validate_boltPath w tgt)
              (andThen (validate_enginePath w tgt)
                (andThen (validate_cliConfigsPath w tgt) (validate_cqPath w tgt))))))
     (snd (andThen (validate_configFile w (populateDirs w src))
            (andThen (validate_boltPath w tgt)
              (andThen (validate_enginePath w tgt)
                (andThen (validate_cliConfigsPath w tgt) (validate_cqPath w tgt))))))"
    by (intro names_path_andThen names_path_validate_configFile names_path_validate_boltPath
          names_path_validate_enginePath names_path_validate_cliConfigsPath
          names_path_validate_cqPath)
  show ?thesis
    using rest
    by (auto simp add: fst_validatePaths snd_validatePaths names_path_def
          sublist_quoted1 is_directory_def path_exists_def simp del: append.simps
          split: option.splits sum.splits)
qed


lemma validatePaths_source:
  "fst (snd (fst (validatePaths w src tgt))) =
     (if is_directory w (dbDir src) then populateDirs w src else src)"
  by (simp add: validatePaths_def fst_emit is_directory_def Let_def del: append.simps split: sum.split)

lemma validatePaths_target: "snd (snd (fst (validatePaths w src tgt))) = tgt"
  by (simp add: validatePaths_def fst_emit Let_def del: append.simps split: sum.split)

lemma is_read_inspections: "list_all is_read (inspections w src tgt)"
  by (simp add: inspections_def)

lemma validatePaths_reads: "list_all is_read (snd (validatePaths w src tgt))"
  using vp_prefix [of w src tgt] is_read_inspections [of w src tgt]
  by (auto simp add: list_all_iff dest: set_mono_prefix)


text \<open>
  C3, as amended: \<^verbatim>\<open>validatePaths\<close> returns the message of the first violated check of
  the specification's list, in the specification's order; its file system reads are an
  initial part of the reads of a validation that passes, in that order, and all of them
  when no check is violated (it stops at the violation); and the error holds, between
  single quotes, the path inspected last, except that the error of a listing of the engine
  directory that fails is returned as \<^verbatim>\<open>ioutil.ReadDir\<close> gave it.
\<close>

theorem validatePaths_checks_in_order:
  "fst (fst (validatePaths w src tgt)) = first_violation (path_checks w src tgt) \<and>
   prefix (snd (validatePaths w src tgt)) (inspections w src tgt) \<and>
   (fst (fst (validatePaths w src tgt)) = None \<longrightarrow>
      snd (validatePaths w src tgt) = inspections w src tgt) \<and>
   names_path w (fst (fst (validatePaths w src tgt))) (snd (validatePaths w src tgt))"
  using vp_refines vp_prefix vp_complete names_path_validatePaths by blast

theorem validatePaths_checks_in_order_witness:
  "fst (fst (validatePaths world_engine_in_use source0 target0)) =
     Some (''upgraded 2.x engine directory '' @ [CHR 0x27] @ ''/v2/engine'' @ [CHR 0x27] @
           '' must be empty'') \<and>
   fst (fst (validatePaths world0 source0 target0)) = None \<and>
   snd (validatePaths world0 source0 target0) =
     [Stat ''/v1'', Stat ''/v1/meta/meta.db'', Stat ''/v2/bolt'', Stat ''/v2/engine'',
      Stat ''/v2/configs'', Stat ''/v2/cq'']"
proof -
  have in_use: "first_violation (path_checks world_engine_in_use source0 target0) =
      Some (''upgraded 2.x engine directory '' @ [CHR 0x27] @ ''/v2/engine'' @ [CHR 0x27] @
            '' must be empty'')"
    by (simp add: path_checks_def Let_def path_exists_def is_directory_def
          world_engine_in_use_def world0_def source0_def target0_def)
  have free: "first_violation (path_checks world0 source0 target0) = None"
    by (simp add: path_checks_def Let_def path_exists_def is_directory_def
          world0_def source0_def target0_def)
  have reads: "inspections world0 source0 target0 =
      [Stat ''/v1'', Stat ''/v1/meta/meta.db'', Stat ''/v2/bolt'', Stat ''/v2/engine'',
       Stat ''/v2/configs'', Stat ''/v2/cq'']"
    by (simp add: inspections_def is_directory_def world0_def source0_def target0_def)
  show ?thesis
    using validatePaths_checks_in_order [of world_engine_in_use source0 target0]
      validatePaths_checks_in_order [of world0 source0 target0] in_use free reads
    by simp
qed

text \<open>
  C3 as stated fails where the engine directory exists and cannot be listed: the error
  returned is that of the listing, and the path is nowhere in its message.
\<close>

theorem validatePaths_listing_error_counterexample:
  "fst (fst (validatePaths world_engine_unreadable source0 target0)) =
     Some ''readdirent: input/output error'' \<and>
   last (snd (validatePaths world_engine_unreadable source0 target0)) = ReadDir ''/v2/engine'' \<and>
   \<not> sublist ''/v2/engine'' ''readdirent: input/output error''"
proof -
  have "first_violation (path_checks world_engine_unreadable source0 target0) =
      Some ''readdirent: input/output error''"
    by (simp add: path_checks_def Let_def path_exists_def is_directory_def
          world_engine_unreadable_def world0_def source0_def target0_def)
  then have err: "fst (fst (validatePaths world_engine_unreadable source0 target0)) =
      Some ''readdirent: input/output error''"
    by (simp add: vp_refines)
  have reads: "last (snd (validatePaths world_engine_unreadable source0 target0)) =
      ReadDir ''/v2/engine''"
    by (simp add: snd_validatePaths snd_andThen fst_andThen
          fst_validate_configFile fst_validate_boltPath fst_validate_enginePath
          snd_validate_configFile snd_validate_boltPath snd_validate_enginePath
          configFile_populateDirs path_exists_def is_directory_def
          world_engine_unreadable_def world0_def source0_def target0_def)
  have "\<not> sublist ''/v2/engine'' ''readdirent: input/output error''"
    by (simp add: sublist_Cons_right)
  with err reads show ?thesis
    by simp
qed

text \<open>
  C5, as amended: \<^verbatim>\<open>validatePaths\<close> only reads the file system (every event is a
  \<^verbatim>\<open>Stat\<close> or a \<^verbatim>\<open>ReadDir\<close>) and leaves the target options as they were; of the source
  options it leaves \<^verbatim>\<open>dbDir\<close>, \<^verbatim>\<open>configFile\<close> and \<^verbatim>\<open>dbURL\<close> as they were and, once the
  source root is found to be a directory, sets \<^verbatim>\<open>metaDir\<close>, \<^verbatim>\<open>dataDir\<close> and \<^verbatim>\<open>walDir\<close>
  to the subdirectories of \<^verbatim>\<open>dbDir\<close>, whether the later checks pass or fail.
\<close>

theorem validatePaths_frame:
  "snd (snd (fst (validatePaths w src tgt))) = tgt \<and>
   fst (snd (fst (validatePaths w src tgt))) =
     (if is_directory w (dbDir src) then populateDirs w src else src) \<and>
   dbDir (fst (snd (fst (validatePaths w src tgt)))) = dbDir src \<and>
   configFile (fst (snd (fst (validatePaths w src tgt)))) = configFile src \<and>
   dbURL (fst (snd (fst (validatePaths w src tgt)))) = dbURL src \<and>
   list_all is_read (snd (validatePaths w src tgt))"
  by (simp add: validatePaths_source validatePaths_target validatePaths_reads populateDirs_def)

theorem validatePaths_frame_witness:
  "snd (snd (fst (validatePaths world0 source0 target0))) = target0 \<and>
   fst (snd (fst (validatePaths world0 source0 target0))) =
     source0\<lparr>metaDir := ''/v1/meta'', dataDir := ''/v1/data'', walDir := ''/v1/wal''\<rparr> \<and>
   fst (snd (fst (validatePaths (world0\<lparr>os_Stat := (\<lambda>p. Inl ''no such file or directory'')\<rparr>)
      source0 target0))) = source0"
  using validatePaths_frame [of world0 source0 target0]
    validatePaths_frame [of "world0\<lparr>os_Stat := (\<lambda>p. Inl ''no such file or directory'')\<rparr>" source0 target0]
  by (simp add: is_directory_def populateDirs_def world0_def source0_def)

text \<open>
  C5 as stated fails: on a source root that is a directory the source options after
  \<^verbatim>\<open>validatePaths\<close> are not the source options before it.
\<close>

theorem validatePaths_writes_source_counterexample:
  "fst (snd (fst (validatePaths world0 source0 target0))) \<noteq> source0 \<and>
   metaDir source0 = [] \<and>
   metaDir (fst (snd (fst (validatePaths world0 source0 target0)))) = ''/v1/meta''"
  by (simp add: validatePaths_source is_directory_def populateDirs_def world0_def source0_def)

section \<open>Properties of runUpgradeE\<close>

text \<open>
  Before its \<^verbatim>\<open>defer\<close> statement a run causes only events of the kinds that
  \<open>setup_event\<close> lists: no deletion, no close, no warning, and no call of a phase.
\<close>

lemma is_read_setup_event: "is_read e \<Longrightarrow> setup_event e"
  by (cases e) simp_all

lemma validatePaths_setup_events: "list_all setup_event (snd (validatePaths w src tgt))"
  using validatePaths_reads [of w src tgt]
  by (auto simp add: list_all_iff is_read_setup_event)

lemma log_Info_setup_events: "list_all setup_event (log_Info l m fs)"
  by (simp add: log_Info_def)

lemma newInfluxDBv1_setup_events: "list_all setup_event (snd (newInfluxDBv1 w opts))"
  by (simp add: newInfluxDBv1_def Let_def snd_emit split: option.split)

lemma newInfluxDBv2_setup_events: "list_all setup_event (snd (newInfluxDBv2 w opts l))"
  by (simp add: newInfluxDBv2_def Let_def snd_emit log_Error_def split: option.split)

lemma runUpgradeE_setup_events: "list_all setup_event (snd (runUpgradeE_setup w g))"
  by (simp add: runUpgradeE_setup_def Let_def snd_emit case_prod_beta log_Info_setup_events
        validatePaths_setup_events newInfluxDBv1_setup_events newInfluxDBv2_setup_events
        split: option.split sum.split)

subsection \<open>Opening and closing\<close>

lemma first_error_append:
  "first_error (xs @ ys) = (case first_error xs of Some e \<Rightarrow> Some e | None \<Rightarrow> first_error ys)"
  by (induction xs rule: first_error.induct) simp_all

lemma newInfluxDBv1_result:
  "fst (newInfluxDBv1 w opts) =
     (case handle_Open w (V1MetaClient (metaDir opts)) of
        Some e \<Rightarrow> Inl (''error opening 1.x meta.db: '' @ e)
      | None \<Rightarrow> Inr (InfluxDBv1 (V1MetaClient (metaDir opts))))"
  by (simp add: newInfluxDBv1_def Let_def fst_emit split: option.split)

lemma newInfluxDBv2_result:
  "fst (newInfluxDBv2 w opts l) =
     (case first_error
             [handle_Open w (BoltClient (boltPath opts)), migration_NewMigrator w,
              migrator_Up w, handle_Open w MetaClient, authorization_NewStore w,
              authv1_NewStore w] of
        Some err \<Rightarrow> Inl err
      | None \<Rightarrow>
          Inr \<lparr>boltClient = BoltClient (boltPath opts), store = BoltKVStore (boltPath opts),
               meta = MetaClient\<rparr>)"
  by (simp add: newInfluxDBv2_def Let_def fst_emit split: option.split)

lemma newInfluxDBv2_closes_nothing: "filter is_close (snd (newInfluxDBv2 w opts l)) = []"
  by (simp add: newInfluxDBv2_def Let_def snd_emit log_Error_def split: option.split)

lemma newInfluxDBv2_held:
  "held (snd (newInfluxDBv2 w opts l)) =
     (if handle_Open w (BoltClient (boltPath opts)) \<noteq> None then []
      else if migration_NewMigrator w \<noteq> None \<or> migrator_Up w \<noteq> None \<or>
              handle_Open w MetaClient \<noteq> None
        then [BoltClient (boltPath opts)]
        else [BoltClient (boltPath opts), MetaClient])"
  by (auto simp add: newInfluxDBv2_def Let_def snd_emit held_def log_Error_def split: option.split)

lemma setup_event_not_close: "setup_event e \<Longrightarrow> \<not> is_close e"
  by (cases e) simp_all

lemma setup_event_not_deletion: "setup_event e \<Longrightarrow> \<not> is_deletion e"
  by (cases e) simp_all

lemma filter_setup_events:
  assumes "list_all setup_event t" and "\<And>e. setup_event e \<Longrightarrow> \<not> P e"
  shows "filter P t = []"
  using assms by (auto simp add: list_all_iff filter_empty_conv)

lemma deferred_close_deletions: "filter is_deletion (deferred_close w l v2) = []"
  by (simp add: deferred_close_def close_def snd_emit fst_emit emit_def log_Error_def
        split: option.split)

lemma deferred_close_events:
  "e \<in> set (deferred_close w l v2) \<Longrightarrow>
     is_close e \<or> (\<exists>err. e = LogError ''Failed to close 2.0 services.'' [(''error'', err)])"
  by (auto simp add: deferred_close_def close_def emit_def log_Error_def
        split: option.splits if_splits)

lemma deferred_close_meta:
  "Close (meta v2) (handle_Close w (meta v2)) \<in> set (deferred_close w l v2)"
  by (simp add: deferred_close_def close_def emit_def split: option.split)

subsection \<open>The two halves of runUpgradeE\<close>

lemma validatePaths_passed_source:
  assumes "fst (fst (validatePaths w src tgt)) = None"
  shows "fst (snd (fst (validatePaths w src tgt))) = populateDirs w src"
  using assms by (simp add: validatePaths_source fst_validatePaths split: if_splits)

lemma runUpgradeE_setup_target:
  "target (options (snd (fst (runUpgradeE_setup w g)))) = target (options g)"
  by (simp add: runUpgradeE_setup_def Let_def fst_emit case_prod_beta validatePaths_target
        split: option.split sum.split)

lemma runUpgradeE_setup_locals:
  assumes "fst (fst (runUpgradeE_setup w g)) = Inr (l, a, v1, v2)"
  shows "lvl_Set w (logLevel (options g)) = Inr l \<and>
         a = (configFile (source (options g)) \<noteq> [] \<and>
              (\<exists>c. upgradeConfig w = Inr c \<and> Http_AuthEnabled c)) \<and>
         v2 = \<lparr>boltClient = BoltClient (boltPath (target (options g))),
               store = BoltKVStore (boltPath (target (options g))), meta = MetaClient\<rparr> \<and>
         first_error
           [handle_Open w (BoltClient (boltPath (target (options g)))), migration_NewMigrator w,
            migrator_Up w, handle_Open w MetaClient, authorization_NewStore w,
            authv1_NewStore w] = None"
  using assms
  by (auto simp add: runUpgradeE_setup_def Let_def fst_emit case_prod_beta validatePaths_source
        validatePaths_target populateDirs_def newInfluxDBv1_result newInfluxDBv2_result
        split: option.splits sum.splits if_splits)

lemma runUpgradeE_setup_error:
  "err_of (fst (fst (runUpgradeE_setup w g))) = first_error (setup_steps w g)"
  by (simp add: runUpgradeE_setup_def setup_steps_def Let_def fst_emit case_prod_beta
        validatePaths_passed_source validatePaths_target populateDirs_def
        newInfluxDBv1_result newInfluxDBv2_result
        split: option.split sum.split)

subsection \<open>The phases\<close>

lemma remove_data_deletions:
  "filter is_deletion (remove_data w l tgt) = [Remove (boltPath tgt), RemoveAll (enginePath tgt)]"
  by (simp add: remove_data_def log_Info_def log_Error_def split: option.split)

lemma remove_data_ids:
  "remove_data w l (tgt\<lparr>orgID := a, userID := b, token := c\<rparr>) = remove_data w l tgt"
  by (simp add: remove_data_def)

lemma remove_data_events:
  "set (remove_data w l tgt) =
     (if Enabled l InfoLevel then {LogInfo ''Database upgrade error, removing data'' []} else {}) \<union>
     {Remove (boltPath tgt), RemoveAll (enginePath tgt)} \<union>
     (case os_Remove w (boltPath tgt) of
        Some e \<Rightarrow>
          if Enabled l ErrorLevel
          then {LogError ''Unable to remove bolt database.'' [(''error'', e)]} else {}
      | None \<Rightarrow> {}) \<union>
     (case os_RemoveAll w (enginePath tgt) of
        Some e \<Rightarrow>
          if Enabled l ErrorLevel
          then {LogError ''Unable to remove time series data.'' [(''error'', e)]} else {}
      | None \<Rightarrow> {})"
  by (auto simp add: remove_data_def log_Info_def log_Error_def split: option.split)

lemma phases_error:
  "fst (fst (runUpgradeE_phases w l a g)) = first_error (phase_steps w)"
  by (simp add: runUpgradeE_phases_def phase_steps_def Let_def fst_emit
        split: option.split sum.split)

lemma phases_deletions:
  "filter is_deletion (snd (runUpgradeE_phases w l a g)) =
     (if Call UpgradeDatabases \<in> set (snd (runUpgradeE_phases w l a g)) \<and>
         isl (upgradeDatabases w)
      then [Remove (boltPath (target (options g))), RemoveAll (enginePath (target (options g)))]
      else [])"
  by (simp add: runUpgradeE_phases_def Let_def snd_emit remove_data_deletions
        log_Info_def log_Warn_def split: option.split sum.split)

lemma phases_databases_error:
  assumes "Call UpgradeDatabases \<in> set (snd (runUpgradeE_phases w l a g))"
    and "upgradeDatabases w = Inl err"
  shows "fst (fst (runUpgradeE_phases w l a g)) = Some err \<and>
         snd (runUpgradeE_phases w l a g) =
           [Call IsOnboarding, Call OnboardingRequest, Call SetupAdmin, Call SaveLocalConfig,
            Call UpgradeDatabases] @ remove_data w l (target (options g))"
  using assms
  by (auto simp add: runUpgradeE_phases_def Let_def snd_emit fst_emit remove_data_ids
        split: option.splits sum.splits if_splits)

lemma phases_already_onboarded:
  assumes "onboardSvc_IsOnboarding w = Inr False"
  shows "runUpgradeE_phases w l a g =
           ((Some ''InfluxDB has been already set up'', g), [Call IsOnboarding])"
  using assms by (simp add: runUpgradeE_phases_def emit_def)

lemma phases_warning:
  "(LogWarn m fs \<in> set (snd (runUpgradeE_phases w l a g))) =
     (m = v1_auth_warning \<and> fs = [] \<and> fst (fst (runUpgradeE_phases w l a g)) = None \<and>
      (\<exists>n. upgradeUsers w = Inr n \<and> 0 < n) \<and> \<not> a \<and> Enabled l WarnLevel)"
  by (auto simp add: runUpgradeE_phases_def Let_def snd_emit fst_emit remove_data_events
        log_Info_def log_Warn_def split: option.split sum.split if_splits)

lemma phases_users:
  "(Call UpgradeUsers \<in> set (snd (runUpgradeE_phases w l a g)) \<and> \<not> isl (upgradeUsers w)) =
     (fst (fst (runUpgradeE_phases w l a g)) = None)"
  by (auto simp add: runUpgradeE_phases_def Let_def snd_emit fst_emit remove_data_events
        log_Info_def log_Warn_def split: option.split sum.split if_splits)

lemma phases_globals:
  "snd (fst (runUpgradeE_phases w l a g)) =
     (if Call SetupAdmin \<in> set (snd (runUpgradeE_phases w l a g))
      then (case setupAdmin w of
              Inr res \<Rightarrow> g\<lparr>options := (options g)\<lparr>target := (target (options g))
                           \<lparr>orgID := Org_ID res, userID := User_ID res, token := Auth_Token res\<rparr>\<rparr>\<rparr>
            | Inl e \<Rightarrow> g)
      else g)"
  by (simp add: runUpgradeE_phases_def Let_def snd_emit fst_emit
        split: option.split sum.split)

subsection \<open>The whole run\<close>

text \<open>
  The result, the package variables and the trace of a run, from those of its two
  halves; an event that neither the first half nor the deferred close can cause is in the
  trace of the run exactly when the phases caused it.
\<close>

lemma run_result:
  "fst (fst (runUpgradeE w g)) =
     (case fst (fst (runUpgradeE_setup w g)) of
        Inl err \<Rightarrow> Some err
      | Inr (l, a, v1, v2) \<Rightarrow>
          fst (fst (runUpgradeE_phases w l a (snd (fst (runUpgradeE_setup w g))))))"
  by (simp add: runUpgradeE_def case_prod_beta split: sum.split)

lemma run_globals:
  "snd (fst (runUpgradeE w g)) =
     (case fst (fst (runUpgradeE_setup w g)) of
        Inl err \<Rightarrow> snd (fst (runUpgradeE_setup w g))
      | Inr (l, a, v1, v2) \<Rightarrow>
          snd (fst (runUpgradeE_phases w l a (snd (fst (runUpgradeE_setup w g))))))"
  by (simp add: runUpgradeE_def case_prod_beta split: sum.split)

lemma run_trace:
  "snd (runUpgradeE w g) =
     (case fst (fst (runUpgradeE_setup w g)) of
        Inl err \<Rightarrow> snd (runUpgradeE_setup w g)
      | Inr (l, a, v1, v2) \<Rightarrow>
          snd (runUpgradeE_setup w g) @
          snd (runUpgradeE_phases w l a (snd (fst (runUpgradeE_setup w g)))) @
          deferred_close w l v2)"
  by (simp add: runUpgradeE_def case_prod_beta split: sum.split)

lemma run_error: "fst (fst (runUpgradeE w g)) = first_error (setup_steps w g @ phase_steps w)"
proof (cases "fst (fst (runUpgradeE_setup w g))")
  case (Inl e)
  then have "first_error (setup_steps w g) = Some e"
    using runUpgradeE_setup_error [of w g] by simp
  with Inl show ?thesis
    by (simp add: run_result first_error_append)
next
  case (Inr r)
  then have "first_error (setup_steps w g) = None"
    using runUpgradeE_setup_error [of w g] by simp
  with Inr show ?thesis
    by (simp add: run_result first_error_append phases_error case_prod_beta)
qed

lemma run_event_iff:
  assumes "\<not> setup_event e" and "\<not> is_close e"
    and "\<And>err. e \<noteq> LogError ''Failed to close 2.0 services.'' [(''error'', err)]"
  shows "(e \<in> set (snd (runUpgradeE w g))) =
     (case fst (fst (runUpgradeE_setup w g)) of
        Inl err \<Rightarrow> False
      | Inr (l, a, v1, v2) \<Rightarrow>
          e \<in> set (snd (runUpgradeE_phases w l a (snd (fst (runUpgradeE_setup w g))))))"
proof -
  have before: "e \<notin> set (snd (runUpgradeE_setup w g))"
    using runUpgradeE_setup_events [of w g] assms(1) by (auto simp add: list_all_iff)
  have deferred: "e \<notin> set (deferred_close w l v2)" for l v2
    using deferred_close_events [of e w l v2] assms(2,3) by blast
  show ?thesis
    by (simp add: run_trace before deferred split: sum.split)
qed

lemma run_deletions:
  "filter is_deletion (snd (runUpgradeE w g)) =
     (case fst (fst (runUpgradeE_setup w g)) of
        Inl err \<Rightarrow> []
      | Inr (l, a, v1, v2) \<Rightarrow>
          filter is_deletion (snd (runUpgradeE_phases w l a (snd (fst (runUpgradeE_setup w g))))))"
proof -
  have before: "filter is_deletion (snd (runUpgradeE_setup w g)) = []"
    using runUpgradeE_setup_events setup_event_not_deletion by (rule filter_setup_events)
  show ?thesis
    by (simp add: run_trace before deferred_close_deletions split: sum.split)
qed

lemma run_call_iff:
  assumes "\<not> setup_call c"
  shows "(Call c \<in> set (snd (runUpgradeE w g))) =
     (case fst (fst (runUpgradeE_setup w g)) of
        Inl err \<Rightarrow> False
      | Inr (l, a, v1, v2) \<Rightarrow>
          Call c \<in> set (snd (runUpgradeE_phases w l a (snd (fst (runUpgradeE_setup w g))))))"
  using assms by (intro run_event_iff) simp_all

lemmas run_eval =
  runUpgradeE_def runUpgradeE_setup_def runUpgradeE_phases_def
  validatePaths_def validate_configFile_def validate_boltPath_def validate_enginePath_def
  validate_cliConfigsPath_def validate_cqPath_def andThen_def populateDirs_def
  newInfluxDBv1_def newInfluxDBv2_def deferred_close_def close_def remove_data_def emit_def Let_def
  log_Info_def log_Warn_def log_Error_def Enabled_def level_of_name_def
  world0_def globals0_def source0_def target0_def

text \<open>
  C2: the deletions of a run (\<^verbatim>\<open>os.Remove\<close> of the bolt path, \<^verbatim>\<open>os.RemoveAll\<close> of the
  engine path) happen exactly when \<^verbatim>\<open>upgradeDatabases\<close> was called and failed, and the
  run then returns that error; in every other run, whatever step failed, nothing is
  deleted. \<^verbatim>\<open>upgradeDatabases\<close> is called exactly when every step before it succeeded. A run returns the error of the first of its steps that fails, whichever step
  it is (the onboarding check, the onboarding, the saving of the configuration and the
  upgrade of the users among them), and no error when none fails. In particular a target
  that is already onboarded fails the run with nothing deleted.
\<close>

theorem runUpgradeE_rollback_only_for_databases:
  "filter is_deletion (snd (runUpgradeE w g)) =
     (if Call UpgradeDatabases \<in> set (snd (runUpgradeE w g)) \<and> isl (upgradeDatabases w)
      then [Remove (boltPath (target (options g))), RemoveAll (enginePath (target (options g)))]
      else []) \<and>
   (Call UpgradeDatabases \<in> set (snd (runUpgradeE w g)) \<and> isl (upgradeDatabases w) \<longrightarrow>
      fst (fst (runUpgradeE w g)) = Some (projl (upgradeDatabases w))) \<and>
   (Call IsOnboarding \<in> set (snd (runUpgradeE w g)) \<and> onboardSvc_IsOnboarding w = Inr False \<longrightarrow>
      fst (fst (runUpgradeE w g)) = Some ''InfluxDB has been already set up'' \<and>
      filter is_deletion (snd (runUpgradeE w g)) = []) \<and>
   fst (fst (runUpgradeE w g)) = first_error (setup_steps w g @ phase_steps w) \<and>
   (Call UpgradeDatabases \<in> set (snd (runUpgradeE w g))) =
     (first_error (setup_steps w g @ take 4 (phase_steps w)) = None)"
proof (cases "fst (fst (runUpgradeE_setup w g))")
  case (Inl err)
  then have "first_error (setup_steps w g) = Some err"
    using runUpgradeE_setup_error [of w g] by simp
  with Inl show ?thesis
    by (simp add: run_deletions run_call_iff run_error first_error_append)
next
  case (Inr r)
  obtain l a v1 v2 where r: "r = (l, a, v1, v2)"
    by (cases r) auto
  let ?g = "snd (fst (runUpgradeE_setup w g))"
  have tgt: "target (options ?g) = target (options g)"
    by (rule runUpgradeE_setup_target)
  have ok: "first_error (setup_steps w g) = None"
    using runUpgradeE_setup_error [of w g] Inr by simp
  have del: "filter is_deletion (snd (runUpgradeE w g)) =
      (if Call UpgradeDatabases \<in> set (snd (runUpgradeE w g)) \<and> isl (upgradeDatabases w)
       then [Remove (boltPath (target (options g))), RemoveAll (enginePath (target (options g)))]
       else [])"
    using phases_deletions [of w l a ?g]
    by (simp add: run_deletions run_call_iff Inr r tgt)
  have err: "fst (fst (runUpgradeE w g)) = Some (projl (upgradeDatabases w))"
    if "Call UpgradeDatabases \<in> set (snd (runUpgradeE w g))" "isl (upgradeDatabases w)"
  proof -
    from that(2) obtain e where e: "upgradeDatabases w = Inl e"
      by (cases "upgradeDatabases w") auto
    from that(1) have "Call UpgradeDatabases \<in> set (snd (runUpgradeE_phases w l a ?g))"
      by (simp add: run_call_iff Inr r)
    from phases_databases_error [OF this e] show ?thesis
      by (simp add: run_result Inr r e)
  qed
  have onb: "fst (fst (runUpgradeE w g)) = Some ''InfluxDB has been already set up'' \<and>
      filter is_deletion (snd (runUpgradeE w g)) = []"
    if "onboardSvc_IsOnboarding w = Inr False"
    using phases_already_onboarded [OF that, of l a ?g]
    by (simp add: run_result run_deletions Inr r)
  have reached: "(Call UpgradeDatabases \<in> set (snd (runUpgradeE w g))) =
     (first_error (setup_steps w g @ take 4 (phase_steps w)) = None)"
    by (auto simp add: run_call_iff Inr r first_error_append ok phase_steps_def
          runUpgradeE_phases_def Let_def snd_emit
          split: option.splits sum.splits if_splits)
  from del err onb reached show ?thesis
    by (simp add: run_error)
qed

theorem runUpgradeE_rollback_only_for_databases_witness:
  "Call UpgradeDatabases \<in> set (snd (runUpgradeE world_databases_fail globals0)) \<and>
   isl (upgradeDatabases world_databases_fail) \<and>
   filter is_deletion (snd (runUpgradeE world_databases_fail globals0)) =
     [Remove ''/v2/bolt'', RemoveAll ''/v2/engine''] \<and>
   fst (fst (runUpgradeE world_databases_fail globals0)) = Some ''shard copy failed''"
proof -
  define r where "r = runUpgradeE world_databases_fail globals0"
  have "case r of ((e, g), t) \<Rightarrow> Call UpgradeDatabases \<in> set t"
    unfolding r_def by (simp add: run_eval world_databases_fail_def)
  then have called: "Call UpgradeDatabases \<in> set (snd r)"
    by (simp add: case_prod_beta)
  have failed: "isl (upgradeDatabases world_databases_fail)"
    "projl (upgradeDatabases world_databases_fail) = ''shard copy failed''"
    "boltPath (target (options globals0)) = ''/v2/bolt''"
    "enginePath (target (options globals0)) = ''/v2/engine''"
    by (simp_all add: world_databases_fail_def globals0_def target0_def)
  show ?thesis
    using runUpgradeE_rollback_only_for_databases [of world_databases_fail globals0, folded r_def,
        THEN conjunct1]
      runUpgradeE_rollback_only_for_databases [of world_databases_fail globals0, folded r_def,
        THEN conjunct2, THEN conjunct1]
      called failed
    unfolding r_def [symmetric] by simp
qed

text \<open>
  C8, as amended: when \<^verbatim>\<open>upgradeDatabases\<close> was called and failed, the run returns its
  error, whatever the two deletions returned; both deletions are tried, and each logs its
  own error, at the level \<^verbatim>\<open>error\<close>, exactly when it fails: the entry is written when
  the log level of the run enables that level, and not otherwise.
\<close>

theorem runUpgradeE_rollback_best_effort:
  assumes "Call UpgradeDatabases \<in> set (snd (runUpgradeE w g))"
    and "upgradeDatabases w = Inl err"
  shows "fst (fst (runUpgradeE w g)) = Some err \<and>
     Remove (boltPath (target (options g))) \<in> set (snd (runUpgradeE w g)) \<and>
     RemoveAll (enginePath (target (options g))) \<in> set (snd (runUpgradeE w g)) \<and>
     (\<forall>e. (LogError ''Unable to remove bolt database.'' [(''error'', e)]
             \<in> set (snd (runUpgradeE w g))) =
          (os_Remove w (boltPath (target (options g))) = Some e \<and>
           (\<exists>l. lvl_Set w (logLevel (options g)) = Inr l \<and> Enabled l ErrorLevel))) \<and>
     (\<forall>e. (LogError ''Unable to remove time series data.'' [(''error'', e)]
             \<in> set (snd (runUpgradeE w g))) =
          (os_RemoveAll w (enginePath (target (options g))) = Some e \<and>
           (\<exists>l. lvl_Set w (logLevel (options g)) = Inr l \<and> Enabled l ErrorLevel)))"
proof (cases "fst (fst (runUpgradeE_setup w g))")
  case (Inl e)
  with assms(1) show ?thesis
    by (simp add: run_call_iff)
next
  case (Inr r)
  obtain l a v1 v2 where r: "r = (l, a, v1, v2)"
    by (cases r) auto
  let ?g = "snd (fst (runUpgradeE_setup w g))"
  have tgt: "target (options ?g) = target (options g)"
    by (rule runUpgradeE_setup_target)
  have lvl: "lvl_Set w (logLevel (options g)) = Inr l"
    using runUpgradeE_setup_locals [of w g l a v1 v2] Inr r by simp
  from assms(1) have "Call UpgradeDatabases \<in> set (snd (runUpgradeE_phases w l a ?g))"
    by (simp add: run_call_iff Inr r)
  from phases_databases_error [OF this assms(2)]
  have res: "fst (fst (runUpgradeE_phases w l a ?g)) = Some err"
    and tr: "snd (runUpgradeE_phases w l a ?g) =
      [Call IsOnboarding, Call OnboardingRequest, Call SetupAdmin, Call SaveLocalConfig,
       Call UpgradeDatabases] @ remove_data w l (target (options g))"
    by (simp_all add: tgt)
  show ?thesis
    by (auto simp add: run_result run_event_iff Inr r res tr lvl remove_data_events
          split: option.split)
qed

theorem runUpgradeE_rollback_best_effort_witness:
  "Call UpgradeDatabases \<in> set (snd (runUpgradeE world_rollback_fails globals0)) \<and>
   upgradeDatabases world_rollback_fails = Inl ''shard copy failed'' \<and>
   lvl_Set world_rollback_fails (logLevel (options globals0)) = Inr InfoLevel \<and>
   fst (fst (runUpgradeE world_rollback_fails globals0)) = Some ''shard copy failed'' \<and>
   LogError ''Unable to remove bolt database.'' [(''error'', ''file is locked'')]
     \<in> set (snd (runUpgradeE world_rollback_fails globals0)) \<and>
   LogError ''Unable to remove time series data.'' [(''error'', ''permission denied'')]
     \<in> set (snd (runUpgradeE world_rollback_fails globals0))"
proof -
  define r where "r = runUpgradeE world_rollback_fails globals0"
  have "case r of ((e, g), t) \<Rightarrow> Call UpgradeDatabases \<in> set t"
    unfolding r_def by (simp add: run_eval world_rollback_fails_def)
  then have called: "Call UpgradeDatabases \<in> set (snd r)"
    by (simp add: case_prod_beta)
  have failed: "upgradeDatabases world_rollback_fails = Inl ''shard copy failed''"
    "os_Remove world_rollback_fails (boltPath (target (options globals0))) = Some ''file is locked''"
    "os_RemoveAll world_rollback_fails (enginePath (target (options globals0))) =
       Some ''permission denied''"
    "lvl_Set world_rollback_fails (logLevel (options globals0)) = Inr InfoLevel"
    "Enabled InfoLevel ErrorLevel"
    by (simp_all add: world_rollback_fails_def world0_def globals0_def level_of_name_def
          Enabled_def)
  show ?thesis
    using runUpgradeE_rollback_best_effort [of world_rollback_fails globals0, folded r_def,
        OF called failed(1)] called failed
    unfolding r_def [symmetric] by simp
qed

text \<open>
  C8 as stated fails at the log level \<^verbatim>\<open>fatal\<close>: the upgrade of the databases fails,
  both deletions fail, the error of the upgrade is returned, and nothing is logged.
\<close>

theorem runUpgradeE_rollback_not_logged_counterexample:
  "Call UpgradeDatabases \<in> set (snd (runUpgradeE world_rollback_fails globals_level_fatal)) \<and>
   fst (fst (runUpgradeE world_rollback_fails globals_level_fatal)) = Some ''shard copy failed'' \<and>
   filter is_deletion (snd (runUpgradeE world_rollback_fails globals_level_fatal)) =
     [Remove ''/v2/bolt'', RemoveAll ''/v2/engine''] \<and>
   os_Remove world_rollback_fails ''/v2/bolt'' = Some ''file is locked'' \<and>
   os_RemoveAll world_rollback_fails ''/v2/engine'' = Some ''permission denied'' \<and>
   filter is_log (snd (runUpgradeE world_rollback_fails globals_level_fatal)) = []"
proof -
  have "case runUpgradeE world_rollback_fails globals_level_fatal of
          ((e, g), t) \<Rightarrow> Call UpgradeDatabases \<in> set t \<and> e = Some ''shard copy failed'' \<and>
            filter is_deletion t = [Remove ''/v2/bolt'', RemoveAll ''/v2/engine''] \<and>
            filter is_log t = []"
    by (simp add: run_eval world_rollback_fails_def globals_level_fatal_def)
  then show ?thesis
    by (simp add: case_prod_beta world_rollback_fails_def)
qed

text \<open>
  C7, as amended: the warning about V1 users is logged, at the level \<^verbatim>\<open>warn\<close>, exactly
  when the run succeeds with one or more users upgraded, the legacy configuration did not
  enable authentication (no configuration file was upgraded, or its \<^verbatim>\<open>auth-enabled\<close> is
  false), and the log level of the run enables that level. The warning does not fail the
  run: a run that calls \<^verbatim>\<open>upgradeUsers\<close> and gets a number of users succeeds, a run that
  succeeds did so, and no other warning is ever logged.
\<close>

theorem runUpgradeE_auth_warning:
  "(LogWarn v1_auth_warning [] \<in> set (snd (runUpgradeE w g))) =
     (fst (fst (runUpgradeE w g)) = None \<and> (\<exists>n. upgradeUsers w = Inr n \<and> 0 < n) \<and>
      \<not> (configFile (source (options g)) \<noteq> [] \<and>
         (\<exists>c. upgradeConfig w = Inr c \<and> Http_AuthEnabled c)) \<and>
      (\<exists>l. lvl_Set w (logLevel (options g)) = Inr l \<and> Enabled l WarnLevel)) \<and>
   (Call UpgradeUsers \<in> set (snd (runUpgradeE w g)) \<and> \<not> isl (upgradeUsers w)) =
     (fst (fst (runUpgradeE w g)) = None) \<and>
   (\<forall>m fs. LogWarn m fs \<in> set (snd (runUpgradeE w g)) \<longrightarrow> m = v1_auth_warning \<and> fs = [])"
proof (cases "fst (fst (runUpgradeE_setup w g))")
  case (Inl e)
  then show ?thesis
    by (simp add: run_event_iff run_call_iff run_result)
next
  case (Inr r)
  obtain l a v1 v2 where r: "r = (l, a, v1, v2)"
    by (cases r) auto
  have locals: "lvl_Set w (logLevel (options g)) = Inr l"
    "a = (configFile (source (options g)) \<noteq> [] \<and>
          (\<exists>c. upgradeConfig w = Inr c \<and> Http_AuthEnabled c))"
    using runUpgradeE_setup_locals [of w g l a v1 v2] Inr r by simp_all
  show ?thesis
    using phases_users [of w l a "snd (fst (runUpgradeE_setup w g))"]
    by (simp add: run_event_iff run_call_iff run_result Inr r phases_warning locals(1)
          locals(2) [symmetric])
qed

theorem runUpgradeE_auth_warning_witness:
  "LogWarn v1_auth_warning [] \<in> set (snd (runUpgradeE world0 globals0)) \<and>
   fst (fst (runUpgradeE world0 globals0)) = None \<and>
   Call UpgradeUsers \<in> set (snd (runUpgradeE world0 globals0)) \<and>
   upgradeUsers world0 = Inr 3 \<and>
   configFile (source (options globals0)) = [] \<and>
   lvl_Set world0 (logLevel (options globals0)) = Inr InfoLevel"
proof -
  define r where "r = runUpgradeE world0 globals0"
  have "case r of ((e, g), t) \<Rightarrow> Call UpgradeUsers \<in> set t"
    unfolding r_def by (simp add: run_eval)
  then have called: "Call UpgradeUsers \<in> set (snd r)"
    by (simp add: case_prod_beta)
  have given: "upgradeUsers world0 = Inr 3" "configFile (source (options globals0)) = []"
    "lvl_Set world0 (logLevel (options globals0)) = Inr InfoLevel"
    "Enabled InfoLevel WarnLevel"
    by (simp_all add: world0_def globals0_def source0_def level_of_name_def Enabled_def)
  show ?thesis
    using runUpgradeE_auth_warning [of world0 globals0, folded r_def] called given
    unfolding r_def [symmetric] by simp
qed

text \<open>
  C7 as stated fails at the log level \<^verbatim>\<open>error\<close>: three users are upgraded, no
  configuration file enabled authentication, the run succeeds, and no warning is logged.
\<close>

theorem runUpgradeE_warning_not_logged_counterexample:
  "fst (fst (runUpgradeE world0 globals_level_error)) = None \<and>
   Call UpgradeUsers \<in> set (snd (runUpgradeE world0 globals_level_error)) \<and>
   upgradeUsers world0 = Inr 3 \<and>
   configFile (source (options globals_level_error)) = [] \<and>
   filter is_log (snd (runUpgradeE world0 globals_level_error)) = []"
proof -
  have "case runUpgradeE world0 globals_level_error of
          ((e, g), t) \<Rightarrow> e = None \<and> Call UpgradeUsers \<in> set t \<and> filter is_log t = []"
    by (simp add: run_eval globals_level_error_def)
  then show ?thesis
    by (simp add: case_prod_beta world0_def globals_level_error_def globals0_def source0_def)
qed

subsection \<open>Writes to the options\<close>

lemma runUpgradeE_setup_frame:
  "verbose (options (snd (fst (runUpgradeE_setup w g)))) = verbose (options g) \<and>
   logLevel (options (snd (fst (runUpgradeE_setup w g)))) = logLevel (options g) \<and>
   logPath (options (snd (fst (runUpgradeE_setup w g)))) = logPath (options g) \<and>
   force (options (snd (fst (runUpgradeE_setup w g)))) = force (options g) \<and>
   optionsT.more (options (snd (fst (runUpgradeE_setup w g)))) = optionsT.more (options g)"
  by (simp add: runUpgradeE_setup_def Let_def fst_emit case_prod_beta
        split: option.split sum.split)

lemma runUpgradeE_setup_source:
  assumes "lvl_Set w (logLevel (options g)) = Inr lvl" and "config_Build w = None"
    and "fst (fst (validatePaths w (source (options g)) (target (options g)))) = None"
  shows "source (options (snd (fst (runUpgradeE_setup w g)))) =
     (if configFile (source (options g)) \<noteq> [] then
        (case upgradeConfig w of
           Inr c \<Rightarrow>
             (fst (snd (fst (validatePaths w (source (options g)) (target (options g))))))
               \<lparr>metaDir := Meta_Dir c, dataDir := Data_Dir c, walDir := Data_WALDir c,
                dbURL := configV1_dbURL (url_escapeHost w) c\<rparr>
         | Inl e \<Rightarrow> fst (snd (fst (validatePaths w (source (options g)) (target (options g))))))
      else fst (snd (fst (validatePaths w (source (options g)) (target (options g))))))"
  using assms
  by (simp add: runUpgradeE_setup_def Let_def fst_emit case_prod_beta
        validatePaths_source populateDirs_def split: option.split sum.split)

lemma runUpgradeE_setup_options:
  assumes "lvl_Set w (logLevel (options g)) = Inr lvl" and "config_Build w = None"
    and "fst (fst (validatePaths w (source (options g)) (target (options g)))) = None"
  shows "options (snd (fst (runUpgradeE_setup w g))) =
     (options g)\<lparr>source :=
        (let src = fst (snd (fst (validatePaths w (source (options g)) (target (options g)))))
         in if configFile (source (options g)) \<noteq> [] then
              (case upgradeConfig w of
                 Inr c \<Rightarrow> src\<lparr>metaDir := Meta_Dir c, dataDir := Data_Dir c,
                              walDir := Data_WALDir c,
                              dbURL := configV1_dbURL (url_escapeHost w) c\<rparr>
               | Inl e \<Rightarrow> src)
            else src)\<rparr>"
  by (rule optionsT.equality)
     (simp_all add: runUpgradeE_setup_source [OF assms] runUpgradeE_setup_target
        runUpgradeE_setup_frame Let_def)

text \<open>
  C6, as amended: the options are not frozen by the validation. In a run whose validation
  passes, \<^verbatim>\<open>runUpgradeE\<close> afterwards writes \<^verbatim>\<open>metaDir\<close>, \<^verbatim>\<open>dataDir\<close>, \<^verbatim>\<open>walDir\<close> and
  \<^verbatim>\<open>dbURL\<close> of the source options when a configuration file is named and its upgrade
  succeeds, and \<^verbatim>\<open>orgID\<close>, \<^verbatim>\<open>userID\<close> and \<^verbatim>\<open>token\<close> of the target options when
  \<^verbatim>\<open>setupAdmin\<close> was called and succeeded; every other field of the options keeps the
  value it had when the validation returned.
\<close>

theorem runUpgradeE_writes_after_validation:
  assumes "lvl_Set w (logLevel (options g)) = Inr lvl" and "config_Build w = None"
    and "fst (fst (validatePaths w (source (options g)) (target (options g)))) = None"
  shows "options (snd (fst (runUpgradeE w g))) =
     (let src = fst (snd (fst (validatePaths w (source (options g)) (target (options g)))));
          tgt = snd (snd (fst (validatePaths w (source (options g)) (target (options g)))))
      in (options g)
         \<lparr>source :=
            (if configFile src \<noteq> [] then
               (case upgradeConfig w of
                  Inr c \<Rightarrow> src\<lparr>metaDir := Meta_Dir c, dataDir := Data_Dir c,
                               walDir := Data_WALDir c,
                               dbURL := configV1_dbURL (url_escapeHost w) c\<rparr>
                | Inl e \<Rightarrow> src)
             else src),
          target :=
            (if Call SetupAdmin \<in> set (snd (runUpgradeE w g)) then
               (case setupAdmin w of
                  Inr res \<Rightarrow> tgt\<lparr>orgID := Org_ID res, userID := User_ID res,
                                 token := Auth_Token res\<rparr>
                | Inl e \<Rightarrow> tgt)
             else tgt)\<rparr>)"
proof -
  let ?g = "snd (fst (runUpgradeE_setup w g))"
  have cf: "configFile (fst (snd (fst (validatePaths w (source (options g)) (target (options g))))))
      = configFile (source (options g))"
    by (simp add: validatePaths_source populateDirs_def)
  note opts = runUpgradeE_setup_options [OF assms]
  show ?thesis
  proof (cases "fst (fst (runUpgradeE_setup w g))")
    case (Inl e)
    then show ?thesis
      by (simp add: run_globals run_call_iff opts Let_def cf validatePaths_target)
  next
    case (Inr r)
    obtain a v1 v2 where r: "r = (a, v1, v2)"
      by (cases r) auto
    show ?thesis
      by (simp add: run_globals run_call_iff Inr r phases_globals opts Let_def cf
            validatePaths_target split: sum.split)
  qed
qed


theorem runUpgradeE_writes_after_validation_witness:
  "lvl_Set world0 (logLevel (options globals0)) = Inr InfoLevel \<and> config_Build world0 = None \<and>
   fst (fst (validatePaths world0 (source (options globals0)) (target (options globals0)))) = None \<and>
   Call SetupAdmin \<in> set (snd (runUpgradeE world0 globals0)) \<and>
   options (snd (fst (runUpgradeE world0 globals0))) =
     (options globals0)
       \<lparr>source := source0\<lparr>metaDir := ''/v1/meta'', dataDir := ''/v1/data'', walDir := ''/v1/wal''\<rparr>,
        target := target0\<lparr>orgID := 1, userID := 2, token := ''t0''\<rparr>\<rparr>"
proof -
  define r where "r = runUpgradeE world0 globals0"
  have "case r of ((e, g), t) \<Rightarrow> Call SetupAdmin \<in> set t"
    unfolding r_def by (simp add: run_eval)
  then have called: "Call SetupAdmin \<in> set (snd r)"
    by (simp add: case_prod_beta)
  have given: "lvl_Set world0 (logLevel (options globals0)) = Inr InfoLevel"
    "config_Build world0 = None"
    "configFile (source (options globals0)) = []"
    "setupAdmin world0 = Inr \<lparr>Org_ID = 1, User_ID = 2, Auth_Token = ''t0''\<rparr>"
    "source (options globals0) = source0" "target (options globals0) = target0"
    by (simp_all add: world0_def globals0_def source0_def level_of_name_def)
  have valid: "fst (fst (validatePaths world0 source0 target0)) = None"
    by (simp add: vp_refines path_checks_def Let_def path_exists_def is_directory_def
          world0_def source0_def target0_def)
  have src: "fst (snd (fst (validatePaths world0 source0 target0))) =
      source0\<lparr>metaDir := ''/v1/meta'', dataDir := ''/v1/data'', walDir := ''/v1/wal''\<rparr>"
    by (simp add: validatePaths_source is_directory_def populateDirs_def world0_def source0_def)
  have cf: "configFile source0 = []"
    by (simp add: source0_def)
  show ?thesis
    using runUpgradeE_writes_after_validation [of world0 globals0 InfoLevel, folded r_def]
      called given
      valid src cf
    unfolding r_def [symmetric] by (simp add: Let_def validatePaths_target)
qed

text \<open>
  C6 as stated fails: the validation passes and leaves an empty token in the target
  options, and the run ends with the token of the onboarding in them.
\<close>

theorem runUpgradeE_writes_options_counterexample:
  "fst (fst (validatePaths world0 (source (options globals0)) (target (options globals0)))) = None \<and>
   token (snd (snd (fst (validatePaths world0 (source (options globals0))
                          (target (options globals0)))))) = [] \<and>
   token (target (options (snd (fst (runUpgradeE world0 globals0))))) = ''t0''"
proof -
  have "case runUpgradeE world0 globals0 of ((e, g), t) \<Rightarrow> token (target (options g)) = ''t0''"
    by (simp add: run_eval)
  then have after: "token (target (options (snd (fst (runUpgradeE world0 globals0))))) = ''t0''"
    by (simp add: case_prod_beta)
  have valid: "fst (fst (validatePaths world0 source0 target0)) = None"
    by (simp add: vp_refines path_checks_def Let_def path_exists_def is_directory_def
          world0_def source0_def target0_def)
  show ?thesis
    using after valid by (simp add: validatePaths_target globals0_def target0_def)
qed

subsection \<open>Failure of newInfluxDBv2\<close>

text \<open>
  C1: what the code does. \<^verbatim>\<open>newInfluxDBv2\<close> returns the error of the first of its six
  steps that fails, and the services when none fails, and it closes nothing: no handle is
  held when opening bolt failed; the bolt client stays open when the migrator or the
  opening of the meta client failed; the bolt client and the meta client stay open when a
  store of the authorization services failed. The run that called it closes nothing
  either when a step failed, while every return of a run whose services were opened is
  followed by the deferred close, which starts by closing the meta client.
\<close>

theorem newInfluxDBv2_failure_leaves_handles_open:
  "fst (newInfluxDBv2 w opts l) =
     (case first_error
             [handle_Open w (BoltClient (boltPath opts)), migration_NewMigrator w,
              migrator_Up w, handle_Open w MetaClient, authorization_NewStore w,
              authv1_NewStore w] of
        Some err \<Rightarrow> Inl err
      | None \<Rightarrow>
          Inr \<lparr>boltClient = BoltClient (boltPath opts), store = BoltKVStore (boltPath opts),
               meta = MetaClient\<rparr>) \<and>
   filter is_close (snd (newInfluxDBv2 w opts l)) = [] \<and>
   held (snd (newInfluxDBv2 w opts l)) =
     (if handle_Open w (BoltClient (boltPath opts)) \<noteq> None then []
      else if migration_NewMigrator w \<noteq> None \<or> migrator_Up w \<noteq> None \<or>
              handle_Open w MetaClient \<noteq> None
        then [BoltClient (boltPath opts)]
        else [BoltClient (boltPath opts), MetaClient]) \<and>
   (first_error
      [handle_Open w (BoltClient (boltPath (target (options g)))), migration_NewMigrator w,
       migrator_Up w, handle_Open w MetaClient, authorization_NewStore w,
       authv1_NewStore w] \<noteq> None \<longrightarrow>
      filter is_close (snd (runUpgradeE w g)) = []) \<and>
   (first_error (setup_steps w g) = None \<longrightarrow>
      Close MetaClient (handle_Close w MetaClient) \<in> set (snd (runUpgradeE w g)))"
proof -
  have failing: "filter is_close (snd (runUpgradeE w g)) = []"
    if "first_error
      [handle_Open w (BoltClient (boltPath (target (options g)))), migration_NewMigrator w,
       migrator_Up w, handle_Open w MetaClient, authorization_NewStore w,
       authv1_NewStore w] \<noteq> None"
  proof (cases "fst (fst (runUpgradeE_setup w g))")
    case (Inl e)
    have "filter is_close (snd (runUpgradeE_setup w g)) = []"
      using runUpgradeE_setup_events setup_event_not_close by (rule filter_setup_events)
    with Inl show ?thesis
      by (simp add: run_trace)
  next
    case (Inr r)
    obtain l' a v1 v2 where "r = (l', a, v1, v2)"
      by (cases r) auto
    with Inr that runUpgradeE_setup_locals [of w g l' a v1 v2] show ?thesis
      by simp
  qed
  have later: "Close MetaClient (handle_Close w MetaClient) \<in> set (snd (runUpgradeE w g))"
    if "first_error (setup_steps w g) = None"
  proof (cases "fst (fst (runUpgradeE_setup w g))")
    case (Inl e)
    with that runUpgradeE_setup_error [of w g] show ?thesis
      by simp
  next
    case (Inr r)
    obtain l' a v1 v2 where r: "r = (l', a, v1, v2)"
      by (cases r) auto
    with Inr runUpgradeE_setup_locals [of w g l' a v1 v2] have "meta v2 = MetaClient"
      by simp
    with deferred_close_meta [of v2 w l'] show ?thesis
      by (simp add: run_trace Inr r)
  qed
  from failing later show ?thesis
    by (simp add: newInfluxDBv2_result newInfluxDBv2_closes_nothing newInfluxDBv2_held)
qed

theorem newInfluxDBv2_failure_leaves_handles_open_witness:
  "fst (newInfluxDBv2 world_migration_fails target0 InfoLevel) = Inl ''migration failed'' \<and>
   filter is_close (snd (newInfluxDBv2 world_migration_fails target0 InfoLevel)) = [] \<and>
   held (snd (newInfluxDBv2 world_migration_fails target0 InfoLevel)) = [BoltClient ''/v2/bolt''] \<and>
   fst (fst (runUpgradeE world_migration_fails globals0)) = Some ''migration failed'' \<and>
   filter is_close (snd (runUpgradeE world_migration_fails globals0)) = [] \<and>
   held (snd (runUpgradeE world_migration_fails globals0)) =
     [V1MetaClient ''/v1/meta'', BoltClient ''/v2/bolt''] \<and>
   fst (fst (runUpgradeE (world0\<lparr>onboardSvc_IsOnboarding := Inr False\<rparr>) globals0)) =
     Some ''InfluxDB has been already set up'' \<and>
   held (snd (runUpgradeE (world0\<lparr>onboardSvc_IsOnboarding := Inr False\<rparr>) globals0)) =
     [V1MetaClient ''/v1/meta'']"
proof -
  have steps: "first_error
      [handle_Open world_migration_fails (BoltClient (boltPath target0)),
       migration_NewMigrator world_migration_fails, migrator_Up world_migration_fails,
       handle_Open world_migration_fails MetaClient, authorization_NewStore world_migration_fails,
       authv1_NewStore world_migration_fails] = Some ''migration failed''"
    "handle_Open world_migration_fails (BoltClient (boltPath target0)) = None"
    "migrator_Up world_migration_fails = Some ''migration failed''"
    "target (options globals0) = target0" "boltPath target0 = ''/v2/bolt''"
    by (simp_all add: world_migration_fails_def world0_def globals0_def target0_def)
  have run: "case runUpgradeE world_migration_fails globals0 of
          ((e, g), t) \<Rightarrow> e = Some ''migration failed'' \<and>
             held t = [V1MetaClient ''/v1/meta'', BoltClient ''/v2/bolt'']"
    by (simp add: run_eval held_def world_migration_fails_def)
  have sibling: "case runUpgradeE (world0\<lparr>onboardSvc_IsOnboarding := Inr False\<rparr>) globals0 of
          ((e, g), t) \<Rightarrow> e = Some ''InfluxDB has been already set up'' \<and>
             held t = [V1MetaClient ''/v1/meta'']"
    by (simp add: run_eval held_def)
  show ?thesis
    using newInfluxDBv2_failure_leaves_handles_open
        [of world_migration_fails target0 InfoLevel globals0] steps run sibling
    by (simp add: case_prod_beta)
qed

end
